theory Spec2Isabelle
  imports Main
begin

section \<open>The API client (frontend/src/api.ts)\<close>

text \<open>
  The interfaces of api.ts become records. Several interfaces share field names
  (\<open>id\<close>, \<open>name\<close>, \<open>status\<close>, \<open>is_active\<close>, ...), so every field carries a short
  prefix naming its interface: \<open>nudge_status\<close> is \<open>Nudge.status\<close>, \<open>role_is_active\<close> is
  \<open>Role.is_active\<close>, \<open>ps_role_id\<close> is \<open>ProcessingStatus.role_id\<close>, and so on.
  A field of type \<open>string | null\<close> or an optional field is a \<open>string option\<close>.
\<close>

subsection \<open>Thrown values and HTTP responses\<close>

text \<open>
  A thrown JavaScript value is either an \<open>Error\<close> object with its message or some other
  value (\<open>err instanceof Error\<close> tells them apart). An \<open>await\<close>ed call yields
  \<open>Inl e\<close> when it throws \<open>e\<close> and \<open>Inr v\<close> when it returns \<open>v\<close>.
\<close>

datatype js_error = Error string | Thrown

text \<open>
  What \<open>fetch\<close> resolves with: the \<open>ok\<close> flag and the outcome of \<open>response.json()\<close>.
  A \<open>fetch\<close> that rejects (no network) is \<open>Inl\<close>.
\<close>

record 'a response =
  ok :: bool
  json :: "js_error + 'a"

type_synonym 'a fetched = "js_error + 'a response"

text \<open>JavaScript truthiness of a string, and \<open>a || b\<close> on strings.\<close>

definition truthy :: "string \<Rightarrow> bool" where
  "truthy s = (s \<noteq> [])"

definition or_else :: "string \<Rightarrow> string \<Rightarrow> string" where
  "or_else a b = (if truthy a then a else b)"

text \<open>\<open>a || b\<close> where \<open>a\<close> may be \<open>undefined\<close> or \<open>null\<close>.\<close>

definition opt_or_else :: "string option \<Rightarrow> string \<Rightarrow> string" where
  "opt_or_else a b = (case a of None \<Rightarrow> b | Some s \<Rightarrow> or_else s b)"

subsection \<open>Interfaces\<close>

datatype user_role = manager | employee

record User =
  user_id :: string
  user_email :: string
  user_name :: string
  user_role :: user_role
  user_company_id :: string
  user_is_active :: bool
  user_created_at :: string
  user_updated_at :: string

record Company =
  company_id :: string
  company_name :: string
  company_domain :: "string option"
  company_invite_code :: string
  company_is_active :: bool
  company_created_at :: string
  company_updated_at :: string

datatype nudge_status = pending | fulfilled | dismissed

record Nudge =
  nudge_id :: string
  nudge_employee_id :: string
  nudge_company_id :: string
  nudge_role_name :: string
  nudge_level_name :: "string option"
  nudge_status :: nudge_status
  nudge_is_active :: bool
  nudge_created_at :: string
  nudge_updated_at :: string
  nudge_employee_name :: "string option"

record Role =
  role_id :: string
  role_company_id :: string
  role_name :: string
  role_is_active :: bool
  role_created_at :: string
  role_updated_at :: string

record Level =
  level_id :: string
  level_company_id :: string
  level_role_id :: string
  level_name :: string
  level_order_idx :: int
  level_is_active :: bool
  level_created_at :: string
  level_updated_at :: string

record Competency =
  comp_id :: string
  comp_company_id :: string
  comp_role_id :: string
  comp_name :: string
  comp_order_idx :: int
  comp_is_active :: bool
  comp_created_at :: string
  comp_updated_at :: string

record Example =
  ex_id :: string
  ex_company_id :: string
  ex_role_id :: string
  ex_level_id :: string
  ex_competency_id :: string
  ex_content :: string
  ex_is_active :: bool
  ex_created_at :: string
  ex_updated_at :: string

record DefinitionWithExamples =
  def_id :: string
  def_level_id :: string
  def_level_name :: string
  def_competency_id :: string
  def_competency_name :: string
  def_definition :: string
  def_examples :: "Example list"

record RoleDetail = Role +
  levels :: "Level list"
  competencies :: "Competency list"
  definitions :: "DefinitionWithExamples list"

datatype processing_state = processing | completed | failed

record ProcessingStatus =
  ps_role_id :: string
  ps_status :: processing_state
  ps_message :: "string option"

record RoleExistsCheck =
  chk_exists :: bool
  chk_role_id :: "string option"
  chk_created_at :: "string option"

subsection \<open>Requests\<close>

text \<open>
  Every request function of api.ts has the same shape: \<open>fetch\<close>, throw a fixed
  \<open>Error\<close> when \<open>!response.ok\<close>, return \<open>response.json()\<close>. The argument is what
  \<open>fetch\<close> did for this call.
\<close>

definition request :: "string \<Rightarrow> 'a fetched \<Rightarrow> js_error + 'a" where
  "request failure f =
     (case f of
        Inl e \<Rightarrow> Inl e
      | Inr r \<Rightarrow> if \<not> ok r then Inl (Error failure) else json r)"

definition getNudges :: "Nudge list fetched \<Rightarrow> js_error + Nudge list" where
  "getNudges = request ''Failed to get requests''"

definition updateNudge :: "Nudge fetched \<Rightarrow> js_error + Nudge" where
  "updateNudge = request ''Failed to update request''"

definition checkRoleExists :: "RoleExistsCheck fetched \<Rightarrow> js_error + RoleExistsCheck" where
  "checkRoleExists = request ''Failed to check role''"

definition getRoleStatus :: "ProcessingStatus fetched \<Rightarrow> js_error + ProcessingStatus" where
  "getRoleStatus = request ''Failed to get role status''"

definition getRole :: "RoleDetail fetched \<Rightarrow> js_error + RoleDetail" where
  "getRole = request ''Failed to get role''"

definition getRoles :: "Role list fetched \<Rightarrow> js_error + Role list" where
  "getRoles = request ''Failed to get roles''"

section \<open>The dashboard (components/Dashboard.tsx)\<close>

text \<open>The \<open>useState\<close> cells of the component, and what \<open>useAuth\<close> provides.\<close>

record AuthState =
  user :: "User option"
  company :: "Company option"
  isLoading :: bool
  isAuthenticated :: bool

record Dashboard_state =
  d_roles :: "Role list"
  d_nudges :: "Nudge list"
  d_loadingData :: bool
  d_error :: "string option"
  d_showRequestForm :: bool
  d_requestRole :: string
  d_requestLevel :: string
  d_submittingRequest :: bool

definition Dashboard_init :: Dashboard_state where
  "Dashboard_init =
     \<lparr>d_roles = [], d_nudges = [], d_loadingData = True, d_error = None,
      d_showRequestForm = False, d_requestRole = [], d_requestLevel = [],
      d_submittingRequest = False\<rparr>"

text \<open>
  \<open>fetchData\<close>: both lists are awaited together (\<open>Promise.all\<close>); if either request
  fails the error is set, and \<open>loadingData\<close> is cleared either way.
\<close>

definition fetchData ::
  "Role list fetched \<Rightarrow> Nudge list fetched \<Rightarrow> Dashboard_state \<Rightarrow> Dashboard_state" where
  "fetchData fr fn st =
     (case (getRoles fr, getNudges fn) of
        (Inr rolesData, Inr nudgesData) \<Rightarrow>
          st\<lparr>d_roles := rolesData, d_nudges := nudgesData, d_loadingData := False\<rparr>
      | _ \<Rightarrow> st\<lparr>d_error := Some ''Failed to load data'', d_loadingData := False\<rparr>)"

text \<open>
  \<open>handleNudgeAction\<close>: the PATCH is awaited; on success every nudge with the given
  id gets the new status (\<open>{ ...n, status }\<close>), on failure only the error is set.
\<close>

definition handleNudgeAction ::
  "Nudge fetched \<Rightarrow> string \<Rightarrow> nudge_status \<Rightarrow> Dashboard_state \<Rightarrow> Dashboard_state" where
  "handleNudgeAction f nudgeId status st =
     (case updateNudge f of
        Inr _ \<Rightarrow>
          st\<lparr>d_nudges :=
               map (\<lambda>n. if nudge_id n = nudgeId then n\<lparr>nudge_status := status\<rparr> else n)
                 (d_nudges st)\<rparr>
      | Inl _ \<Rightarrow> st\<lparr>d_error := Some ''Failed to update request''\<rparr>)"

definition pendingNudges :: "Nudge list \<Rightarrow> Nudge list" where
  "pendingNudges ns = filter (\<lambda>n. nudge_status n = pending) ns"

definition activeRoles :: "Role list \<Rightarrow> Role list" where
  "activeRoles rs = filter (\<lambda>r. role_is_active r) rs"

text \<open>
  One card of the guides grid: its key, the link target, the heading and the date line.
  \<open>toLocaleDateString\<close> depends on the browser's locale and is a parameter.
\<close>

record guide_card =
  card_key :: string
  card_to :: string
  card_heading :: string
  card_date :: string

definition guideCard :: "(string \<Rightarrow> string) \<Rightarrow> Role \<Rightarrow> guide_card" where
  "guideCard toLocaleDateString r =
     \<lparr>card_key = role_id r, card_to = ''/role/'' @ role_id r, card_heading = role_name r,
      card_date = ''Created '' @ toLocaleDateString (role_created_at r)\<rparr>"

datatype guides_section = EmptyState | GuidesGrid "guide_card list"

definition guidesSection :: "(string \<Rightarrow> string) \<Rightarrow> Role list \<Rightarrow> guides_section" where
  "guidesSection toLocaleDateString rs =
     (if length (activeRoles rs) = 0 then EmptyState
      else GuidesGrid (map (guideCard toLocaleDateString) (activeRoles rs)))"

text \<open>The cards a guides section shows (none in the empty state).\<close>

fun cards :: "guides_section \<Rightarrow> guide_card list" where
  "cards EmptyState = []"
| "cards (GuidesGrid cs) = cs"

record Dashboard_page =
  page_isManager :: bool
  page_requests :: "Nudge list"
  page_error :: "string option"
  page_guides :: guides_section

datatype Dashboard_view = LoadingView | NullView | PageView Dashboard_page

text \<open>
  The render function: the spinner while loading, nothing without a user or a
  company, the page otherwise. The guide-request cards are shown to a manager only,
  and the error banner only for a non-empty error (\<open>error && ...\<close>).
\<close>

definition Dashboard ::
  "(string \<Rightarrow> string) \<Rightarrow> AuthState \<Rightarrow> Dashboard_state \<Rightarrow> Dashboard_view" where
  "Dashboard toLocaleDateString auth st =
     (if isLoading auth \<or> d_loadingData st then LoadingView
      else case (user auth, company auth) of
        (Some u, Some c) \<Rightarrow>
          PageView
            \<lparr>page_isManager = (user_role u = manager),
             page_requests =
               (if user_role u = manager then pendingNudges (d_nudges st) else []),
             page_error =
               (case d_error st of
                  None \<Rightarrow> None
                | Some e \<Rightarrow> if truthy e then Some e else None),
             page_guides = guidesSection toLocaleDateString (d_roles st)\<rparr>
      | _ \<Rightarrow> NullView)"

section \<open>Waiting for a role (\<open>waitForRole\<close> in api.ts)\<close>

text \<open>
  \<open>waitForRole\<close> returns a promise and runs \<open>poll\<close>, which re-arms itself with
  \<open>setTimeout\<close> while the status is neither \<open>completed\<close> nor \<open>failed\<close>. The run is
  given the server's side: what \<open>fetch\<close> does for each successive status request
  (a list, in order) and for a role request under each identifier. The result is
  the trace of effects in order and how the promise settled; \<open>None\<close> means the
  promise is still pending when the listed status responses are used up (the next
  status request has been sent and has no answer yet).
\<close>

datatype event =
    StatusRequest string
  | StatusChange processing_state
  | RoleRequest string
  | SetTimeout int

datatype 'a settled = Resolved 'a | Rejected js_error

type_synonym callback = "(processing_state \<Rightarrow> js_error option) option"

text \<open>
  \<open>onStatusChange?.(status.status)\<close>: nothing happens without a callback; a callback
  is called with the status and returns (\<open>None\<close>) or throws.
\<close>

definition notify :: "callback \<Rightarrow> processing_state \<Rightarrow> event list \<times> js_error option" where
  "notify onStatusChange s =
     (case onStatusChange of
        None \<Rightarrow> ([], None)
      | Some cb \<Rightarrow> ([StatusChange s], cb s))"

text \<open>
  One run of \<open>poll\<close> for each status response. Everything inside the \<open>try\<close> that
  throws rejects the promise with the thrown value.
\<close>

fun poll ::
  "(string \<Rightarrow> RoleDetail fetched) \<Rightarrow> string \<Rightarrow> callback \<Rightarrow> int \<Rightarrow>
   ProcessingStatus fetched list \<Rightarrow> event list \<times> RoleDetail settled option" where
  "poll fetchRole roleId onStatusChange pollInterval [] = ([StatusRequest roleId], None)"
| "poll fetchRole roleId onStatusChange pollInterval (f # fs) =
     (case getRoleStatus f of
        Inl error \<Rightarrow> ([StatusRequest roleId], Some (Rejected error))
      | Inr status \<Rightarrow>
          (case notify onStatusChange (ps_status status) of
             (called, Some error) \<Rightarrow> (StatusRequest roleId # called, Some (Rejected error))
           | (called, None) \<Rightarrow>
               if ps_status status = completed then
                 (let finalRoleId = or_else (ps_role_id status) roleId in
                  case getRole (fetchRole finalRoleId) of
                    Inr role \<Rightarrow>
                      (StatusRequest roleId # called @ [RoleRequest finalRoleId],
                       Some (Resolved role))
                  | Inl error \<Rightarrow>
                      (StatusRequest roleId # called @ [RoleRequest finalRoleId],
                       Some (Rejected error)))
               else if ps_status status = failed then
                 (StatusRequest roleId # called,
                  Some (Rejected (Error
                    (opt_or_else (ps_message status) ''Role processing failed''))))
               else
                 (case poll fetchRole roleId onStatusChange pollInterval fs of
                    (later, outcome) \<Rightarrow>
                      (StatusRequest roleId # called @ SetTimeout pollInterval # later,
                       outcome))))"

text \<open>\<open>pollInterval\<close> defaults to 2000 when the caller passes none.\<close>

definition waitForRole ::
  "(string \<Rightarrow> RoleDetail fetched) \<Rightarrow> ProcessingStatus fetched list \<Rightarrow>
   string \<Rightarrow> callback \<Rightarrow> int option \<Rightarrow> event list \<times> RoleDetail settled option" where
  "waitForRole fetchRole fs roleId onStatusChange pollInterval =
     poll fetchRole roleId onStatusChange
       (case pollInterval of None \<Rightarrow> 2000 | Some ms \<Rightarrow> ms) fs"

text \<open>
  Vocabulary for the properties: a status request was answered with a given state;
  the callback (if any) returns normally on every state; kinds of events.
\<close>

definition saw :: "processing_state \<Rightarrow> ProcessingStatus fetched \<Rightarrow> bool" where
  "saw s f = (case getRoleStatus f of Inl _ \<Rightarrow> False | Inr st \<Rightarrow> ps_status st = s)"

definition returns_normally :: "callback \<Rightarrow> bool" where
  "returns_normally onStatusChange =
     (snd (notify onStatusChange processing) = None \<and>
      snd (notify onStatusChange completed) = None \<and>
      snd (notify onStatusChange failed) = None)"

fun is_timer :: "event \<Rightarrow> bool" where
  "is_timer (SetTimeout _) = True"
| "is_timer _ = False"

fun is_status_request :: "event \<Rightarrow> bool" where
  "is_status_request (StatusRequest _) = True"
| "is_status_request _ = False"

fun is_role_request :: "event \<Rightarrow> bool" where
  "is_role_request (RoleRequest _) = True"
| "is_role_request _ = False"

section \<open>The results view (components/ResultsView.tsx)\<close>

text \<open>
  The component's \<open>useState\<close> cells, its handlers as state transformers, and its
  render function as a function from the state to what is shown. A handler that
  throws (an uncaught \<open>TypeError\<close> in a click handler) leaves the state as it was
  and is \<open>Inl\<close>.
\<close>

record ModalData =
  md_definition :: DefinitionWithExamples
  md_levelName :: string
  md_competencyName :: string
  md_levelIdx :: int
  md_compIdx :: int

record ResultsView_state =
  rv_role :: "RoleDetail option"
  rv_loading :: bool
  rv_error :: "string option"
  rv_modalData :: "ModalData option"
  rv_compareMode :: bool

definition ResultsView_init :: ResultsView_state where
  "ResultsView_init =
     \<lparr>rv_role = None, rv_loading = True, rv_error = None, rv_modalData = None,
      rv_compareMode = False\<rparr>"

definition error_message :: "js_error \<Rightarrow> string \<Rightarrow> string" where
  "error_message err fallback = (case err of Error m \<Rightarrow> m | Thrown \<Rightarrow> fallback)"

definition ResultsView_fetchRole :: "RoleDetail fetched \<Rightarrow> ResultsView_state \<Rightarrow> ResultsView_state" where
  "ResultsView_fetchRole f st =
     (case getRole f of
        Inr data \<Rightarrow> st\<lparr>rv_role := Some data, rv_loading := False\<rparr>
      | Inl err \<Rightarrow>
          st\<lparr>rv_error := Some (error_message err ''Failed to load results''),
             rv_loading := False\<rparr>)"

definition openModal :: "ModalData \<Rightarrow> ResultsView_state \<Rightarrow> ResultsView_state" where
  "openModal m st = st\<lparr>rv_modalData := Some m, rv_compareMode := False\<rparr>"

definition closeModal :: "ResultsView_state \<Rightarrow> ResultsView_state" where
  "closeModal st = st\<lparr>rv_modalData := None, rv_compareMode := False\<rparr>"

text \<open>\<open>xs[i]\<close>: \<open>undefined\<close> outside the array.\<close>

definition js_nth :: "'a list \<Rightarrow> int \<Rightarrow> 'a option" where
  "js_nth xs i = (if 0 \<le> i \<and> i < int (length xs) then Some (xs ! nat i) else None)"

definition TypeError :: js_error where
  "TypeError = Error ''Cannot read properties of undefined''"

text \<open>
  \<open>role.definitions.find(d => d.level_id === newLevel.id && d.competency_id === newComp.id)\<close>:
  reading \<open>.id\<close> of \<open>undefined\<close> throws, and \<open>&&\<close> reads \<open>newComp.id\<close> only when the
  level matched.
\<close>

fun find_definition ::
  "Level option \<Rightarrow> Competency option \<Rightarrow> DefinitionWithExamples list \<Rightarrow>
   js_error + DefinitionWithExamples option" where
  "find_definition newLevel newComp [] = Inr None"
| "find_definition newLevel newComp (d # ds) =
     (case newLevel of
        None \<Rightarrow> Inl TypeError
      | Some l \<Rightarrow>
          if def_level_id d = level_id l then
            (case newComp of
               None \<Rightarrow> Inl TypeError
             | Some c \<Rightarrow>
                 if def_competency_id d = comp_id c then Inr (Some d)
                 else find_definition newLevel newComp ds)
          else find_definition newLevel newComp ds)"

datatype direction = Prev | Next

definition navigateModal ::
  "direction \<Rightarrow> ResultsView_state \<Rightarrow> js_error + ResultsView_state" where
  "navigateModal direction st =
     (case (rv_modalData st, rv_role st) of
        (Some modalData, Some role) \<Rightarrow>
          (let levelIdx = md_levelIdx modalData;
               compIdx = md_compIdx modalData;
               (newLevelIdx, newCompIdx) =
                 (if direction = Next then
                    (if levelIdx + 1 \<ge> int (length (levels role)) then
                       (0, if compIdx + 1 \<ge> int (length (competencies role)) then 0
                           else compIdx + 1)
                     else (levelIdx + 1, compIdx))
                  else
                    (if levelIdx - 1 < 0 then
                       (int (length (levels role)) - 1,
                        if compIdx - 1 < 0 then int (length (competencies role)) - 1
                        else compIdx - 1)
                     else (levelIdx - 1, compIdx)));
               newLevel = js_nth (levels role) newLevelIdx;
               newComp = js_nth (competencies role) newCompIdx
           in case find_definition newLevel newComp (definitions role) of
                Inl e \<Rightarrow> Inl e
              | Inr None \<Rightarrow> Inr st
              | Inr (Some newDef) \<Rightarrow>
                  (case (newLevel, newComp) of
                     (Some l, Some c) \<Rightarrow>
                       Inr (st\<lparr>rv_modalData :=
                                 Some \<lparr>md_definition = newDef, md_levelName = level_name l,
                                       md_competencyName = comp_name c,
                                       md_levelIdx = newLevelIdx, md_compIdx = newCompIdx\<rparr>,
                               rv_compareMode := False\<rparr>)
                   | _ \<Rightarrow> Inl TypeError))
      | _ \<Rightarrow> Inr st)"

text \<open>
  The lookup table of the grid: \<open>definitionMap.set(`${def.level_id}-${def.competency_id}`, def)\<close>
  for each definition in order, a later one replacing an earlier one under the same key.
\<close>

definition cell_key :: "string \<Rightarrow> string \<Rightarrow> string" where
  "cell_key l c = l @ ''-'' @ c"

definition definitionMap ::
  "DefinitionWithExamples list \<Rightarrow> (string \<rightharpoonup> DefinitionWithExamples)" where
  "definitionMap defs =
     fold (\<lambda>d m. m(cell_key (def_level_id d) (def_competency_id d) \<mapsto> d)) defs Map.empty"

text \<open>
  A grid cell shows the requirement and, for a non-empty examples list, the hint
  \<open>n examples\<close>, or the \<open>No data\<close> placeholder; a click opens the modal only when
  there is a definition (\<open>definition && openModal(...)\<close>).
\<close>

datatype cell_view = NoData | Requirement string "nat option"

record grid_cell =
  gc_key :: string
  gc_view :: cell_view
  gc_onClick :: "ModalData option"

record grid_row =
  gr_key :: string
  gr_label :: string
  gr_cells :: "grid_cell list"

definition render_cell ::
  "(string \<rightharpoonup> DefinitionWithExamples) \<Rightarrow> Competency \<Rightarrow> nat \<Rightarrow> Level \<Rightarrow> nat \<Rightarrow> grid_cell" where
  "render_cell dm competency compIdx level levelIdx =
     (let definition = dm (cell_key (level_id level) (comp_id competency)) in
      \<lparr>gc_key = cell_key (level_id level) (comp_id competency),
       gc_view =
         (case definition of
            Some d \<Rightarrow>
              Requirement (def_definition d)
                (if length (def_examples d) > 0 then Some (length (def_examples d)) else None)
          | None \<Rightarrow> NoData),
       gc_onClick =
         (case definition of
            Some d \<Rightarrow>
              Some \<lparr>md_definition = d, md_levelName = level_name level,
                    md_competencyName = comp_name competency, md_levelIdx = int levelIdx,
                    md_compIdx = int compIdx\<rparr>
          | None \<Rightarrow> None)\<rparr>)"

definition grid_rows :: "RoleDetail \<Rightarrow> grid_row list" where
  "grid_rows role =
     map (\<lambda>(compIdx, competency).
            \<lparr>gr_key = comp_id competency, gr_label = comp_name competency,
             gr_cells =
               map (\<lambda>(levelIdx, level).
                      render_cell (definitionMap (definitions role)) competency compIdx level levelIdx)
                 (enumerate 0 (levels role))\<rparr>)
       (enumerate 0 (competencies role))"

record modal_view =
  mv_levelName :: string
  mv_competencyName :: string
  mv_requirement :: string
  mv_examples :: "string list option"

definition render_modal :: "ModalData \<Rightarrow> modal_view" where
  "render_modal modalData =
     \<lparr>mv_levelName = md_levelName modalData,
      mv_competencyName = md_competencyName modalData,
      mv_requirement = def_definition (md_definition modalData),
      mv_examples =
        (if length (def_examples (md_definition modalData)) > 0
         then Some (map ex_content (def_examples (md_definition modalData))) else None)\<rparr>"

record results_page =
  rp_title :: string
  rp_header :: "string list"
  rp_rows :: "grid_row list"
  rp_modal :: "modal_view option"

datatype ResultsView_view = LoadingResults | ErrorContainer string | ResultsPage results_page

definition ResultsView :: "ResultsView_state \<Rightarrow> ResultsView_view" where
  "ResultsView st =
     (if rv_loading st then LoadingResults
      else case rv_role st of
        None \<Rightarrow> ErrorContainer (opt_or_else (rv_error st) ''Role not found'')
      | Some role \<Rightarrow>
          if truthy (opt_or_else (rv_error st) [])
          then ErrorContainer (opt_or_else (rv_error st) ''Role not found'')
          else ResultsPage
            \<lparr>rp_title = role_name role @ '' Leveling Guide'',
             rp_header = map level_name (levels role),
             rp_rows = grid_rows role,
             rp_modal = map_option render_modal (rv_modalData st)\<rparr>)"

text \<open>
  The states the component reaches for a role \<open>r\<close>: the role is loaded, then cells
  of the rendered grid are clicked, the modal is navigated or closed (button or
  Escape), and compare mode is switched.
\<close>

definition click_cell :: "grid_cell \<Rightarrow> ResultsView_state \<Rightarrow> ResultsView_state" where
  "click_cell cell st = (case gc_onClick cell of None \<Rightarrow> st | Some m \<Rightarrow> openModal m st)"

inductive reachable :: "RoleDetail \<Rightarrow> ResultsView_state \<Rightarrow> bool" for r where
  loaded: "getRole f = Inr r \<Longrightarrow> reachable r (ResultsView_fetchRole f ResultsView_init)"
| click: "reachable r st \<Longrightarrow> row \<in> set (grid_rows r) \<Longrightarrow> cell \<in> set (gr_cells row)
          \<Longrightarrow> reachable r (click_cell cell st)"
| navigate: "reachable r st \<Longrightarrow> navigateModal d st = Inr st' \<Longrightarrow> reachable r st'"
| close: "reachable r st \<Longrightarrow> reachable r (closeModal st)"
| compare: "reachable r st \<Longrightarrow> reachable r (st\<lparr>rv_compareMode := b\<rparr>)"

text \<open>
  Vocabulary for the properties: the position \<open>prev\<close>/\<open>next\<close> moves to, in words of
  wrapping, and what holds of every reachable state.
\<close>

definition target :: "direction \<Rightarrow> int \<Rightarrow> int \<Rightarrow> int \<Rightarrow> int \<Rightarrow> int \<times> int" where
  "target dir nL nC li ci =
     (case dir of
        Next \<Rightarrow> (if li + 1 < nL then (li + 1, ci) else (0, if ci + 1 < nC then ci + 1 else 0))
      | Prev \<Rightarrow> (if 0 < li then (li - 1, ci) else (nL - 1, if 0 < ci then ci - 1 else nC - 1)))"


definition ResultsView_inv :: "RoleDetail \<Rightarrow> ResultsView_state \<Rightarrow> bool" where
  "ResultsView_inv r st =
     (rv_role st = Some r \<and> \<not> rv_loading st \<and> rv_error st = None \<and>
      (case rv_modalData st of
         None \<Rightarrow> True
       | Some m \<Rightarrow>
           md_definition m \<in> set (definitions r) \<and>
           0 \<le> md_levelIdx m \<and> md_levelIdx m < int (length (levels r)) \<and>
           0 \<le> md_compIdx m \<and> md_compIdx m < int (length (competencies r))))"

section \<open>The upload form (components/UploadForm.tsx)\<close>

text \<open>
  \<open>createRole\<close> of api.ts differs from the other requests: on \<open>!response.ok\<close> it reads
  the body for a \<open>detail\<close> and throws \<open>new Error(error.detail || 'Failed to create role')\<close>.
  Its response gives \<open>ok\<close>, what \<open>json()\<close> yields read as an error body (its
  \<open>detail\<close>) and what it yields read as a \<open>Role\<close>.
\<close>

record create_response =
  cr_ok :: bool
  cr_detail :: "js_error + string option"
  cr_role :: "js_error + Role"

definition createRole :: "js_error + create_response \<Rightarrow> js_error + Role" where
  "createRole f =
     (case f of
        Inl e \<Rightarrow> Inl e
      | Inr r \<Rightarrow>
          if \<not> cr_ok r then
            (case cr_detail r of
               Inl e \<Rightarrow> Inl e
             | Inr detail \<Rightarrow> Inl (Error (opt_or_else detail ''Failed to create role'')))
          else cr_role r)"

datatype upload_status = st_idle | st_uploading | st_processing | st_error

record File =
  file_name :: string
  file_size :: nat

record UploadForm_state =
  u_companyUrl :: string
  u_roleName :: string
  u_file :: "File option"
  u_status :: upload_status
  u_error :: "string option"
  u_showConfirmOverwrite :: bool
  u_existingRoleDate :: "string option"

text \<open>
  What the backend does for the requests of one submission, and the effects a
  handler has besides the state: the requests it sends, the run of \<open>waitForRole\<close>,
  the \<open>console.warn\<close> and the navigation.
\<close>

record backend =
  b_check :: "RoleExistsCheck fetched"
  b_create :: "js_error + create_response"
  b_status :: "ProcessingStatus fetched list"
  b_role :: "string \<Rightarrow> RoleDetail fetched"

datatype upload_effect =
    CheckRequest string
  | CreateRequest "File option" string string
  | Wait "event list"
  | Warn
  | Navigate string

text \<open>
  \<open>doUpload\<close>: the confirmation is hidden, the role is created and waited for with a
  logging callback, and the browser navigates to the completed role; any failure
  ends in the \<open>error\<close> status with the message. While \<open>waitForRole\<close> is pending the
  status stays \<open>processing\<close>.
\<close>

definition doUpload :: "backend \<Rightarrow> UploadForm_state \<Rightarrow> UploadForm_state \<times> upload_effect list" where
  "doUpload b st =
     (let st1 = st\<lparr>u_showConfirmOverwrite := False, u_status := st_uploading, u_error := None\<rparr>;
          req = CreateRequest (u_file st) (u_companyUrl st) (u_roleName st)
      in case createRole (b_create b) of
           Inl err \<Rightarrow>
             (st1\<lparr>u_status := st_error,
                  u_error := Some (error_message err ''An error occurred'')\<rparr>, [req])
         | Inr role \<Rightarrow>
             (let st2 = st1\<lparr>u_status := st_processing\<rparr>
              in case waitForRole (b_role b) (b_status b) (role_id role) (Some (\<lambda>newStatus. None)) None of
                   (trace, Some (Resolved completedRole)) \<Rightarrow>
                     (st2, [req, Wait trace, Navigate (''/role/'' @ role_id completedRole)])
                 | (trace, Some (Rejected err)) \<Rightarrow>
                     (st2\<lparr>u_status := st_error,
                          u_error := Some (error_message err ''An error occurred'')\<rparr>,
                      [req, Wait trace])
                 | (trace, None) \<Rightarrow> (st2, [req, Wait trace])))"

text \<open>
  \<open>handleSubmit\<close>: the three prerequisites are checked first; then the existence
  check decides between asking for confirmation and uploading, and a failed check
  is logged and the upload goes ahead (\<open>// Continue anyway if check fails\<close>).
\<close>

definition handleSubmit :: "backend \<Rightarrow> UploadForm_state \<Rightarrow> UploadForm_state \<times> upload_effect list" where
  "handleSubmit b st =
     (if u_file st = None \<or> \<not> truthy (u_companyUrl st) \<or> \<not> truthy (u_roleName st) then
        (st\<lparr>u_error := Some ''Please fill in all fields and upload a file''\<rparr>, [])
      else
        case checkRoleExists (b_check b) of
          Inr check \<Rightarrow>
            if chk_exists check then
              (st\<lparr>u_existingRoleDate := chk_created_at check, u_showConfirmOverwrite := True\<rparr>,
               [CheckRequest (u_roleName st)])
            else
              (case doUpload b st of
                 (st', effects) \<Rightarrow> (st', CheckRequest (u_roleName st) # effects))
        | Inl err \<Rightarrow>
            (case doUpload b st of
               (st', effects) \<Rightarrow> (st', CheckRequest (u_roleName st) # Warn # effects)))"

text \<open>
  The confirmation box, shown while \<open>showConfirmOverwrite\<close> is set: the role name in
  its heading and the date after \<open>Created on\<close>
  (\<open>existingRoleDate ? new Date(existingRoleDate).toLocaleDateString() : 'a previous date'\<close>).
  Its first button runs \<open>doUpload\<close>, its second clears \<open>showConfirmOverwrite\<close>.
\<close>

record confirm_overwrite =
  co_roleName :: string
  co_createdOn :: string

definition confirmOverwrite :: "(string \<Rightarrow> string) \<Rightarrow> UploadForm_state \<Rightarrow> confirm_overwrite option" where
  "confirmOverwrite toLocaleDateString st =
     (if u_showConfirmOverwrite st then
        Some \<lparr>co_roleName = u_roleName st,
              co_createdOn =
                (case u_existingRoleDate st of
                   None \<Rightarrow> ''a previous date''
                 | Some d \<Rightarrow> if truthy d then toLocaleDateString d else ''a previous date'')\<rparr>
      else None)"

text \<open>
  Modelled from the spec: the check-existence endpoint of the backend, which is not
  among the sources. The spec: "given a role name, returns whether an active Role
  exists and its creation time"; the response type of api.ts adds the identifier.
  The request either reaches the endpoint and is answered, or is answered with an
  error status, or fails in the network.
\<close>

definition check_endpoint :: "Role list \<Rightarrow> string \<Rightarrow> RoleExistsCheck" where
  "check_endpoint roles name =
     (case find (\<lambda>r. role_name r = name \<and> role_is_active r) roles of
        None \<Rightarrow> \<lparr>chk_exists = False, chk_role_id = None, chk_created_at = None\<rparr>
      | Some r \<Rightarrow>
          \<lparr>chk_exists = True, chk_role_id = Some (role_id r),
           chk_created_at = Some (role_created_at r)\<rparr>)"

datatype network = Delivered | ServerError | Offline

definition fetch_check :: "network \<Rightarrow> Role list \<Rightarrow> string \<Rightarrow> RoleExistsCheck fetched" where
  "fetch_check net roles name =
     (case net of
        Delivered \<Rightarrow> Inr \<lparr>ok = True, json = Inr (check_endpoint roles name)\<rparr>
      | ServerError \<Rightarrow> Inr \<lparr>ok = False, json = Inl (Error ''Unexpected token'')\<rparr>
      | Offline \<Rightarrow> Inl (Error ''Failed to fetch''))"

section \<open>The role status of the pipeline\<close>

text \<open>
  Modelled from the spec: the Pipeline Orchestrator's status state machine. The
  backend that runs the pipeline is not among the sources; only the type of the
  status it reports (\<open>ProcessingStatus\<close>) is. The spec (4.5, 5, 9): the states are
  \<open>processing\<close>, then \<open>completed\<close> or \<open>failed\<close>; \<open>processing\<close> is set at Role creation;
  the transition to \<open>failed\<close> occurs if the Extractor or the Structure Parser raises
  a terminal error, with a message; the transition to \<open>completed\<close> occurs once every
  cell has been attempted; a re-upload for an existing role name deactivates the
  prior Role and creates a fresh Role, restarting from \<open>processing\<close>; the status is
  an explicit finite-state value with a monotonic transition function.
  A Role's identifier is its position in the store.
\<close>

record stored_role =
  sr_name :: string
  sr_status :: processing_state
  sr_message :: "string option"
  sr_active :: bool

datatype status_write = MarkFailed string | MarkCompleted

definition transition :: "status_write \<Rightarrow> stored_role \<Rightarrow> stored_role" where
  "transition w r =
     (if sr_status r = processing then
        (case w of
           MarkFailed m \<Rightarrow> r\<lparr>sr_status := failed, sr_message := Some m\<rparr>
         | MarkCompleted \<Rightarrow> r\<lparr>sr_status := completed\<rparr>)
      else r)"

datatype pipeline_op =
    Submit string
  | ExtractorError nat string
  | ParserError nat string
  | AllCellsAttempted nat

definition write_status :: "nat \<Rightarrow> status_write \<Rightarrow> stored_role list \<Rightarrow> stored_role list" where
  "write_status i w store = (if i < length store then store[i := transition w (store ! i)] else store)"

definition submit :: "string \<Rightarrow> stored_role list \<Rightarrow> stored_role list" where
  "submit name store =
     map (\<lambda>r. if sr_name r = name \<and> sr_active r then r\<lparr>sr_active := False\<rparr> else r) store
       @ [\<lparr>sr_name = name, sr_status = processing, sr_message = None, sr_active = True\<rparr>]"

fun apply_op :: "stored_role list \<Rightarrow> pipeline_op \<Rightarrow> stored_role list" where
  "apply_op store (Submit name) = submit name store"
| "apply_op store (ExtractorError i m) = write_status i (MarkFailed m) store"
| "apply_op store (ParserError i m) = write_status i (MarkFailed m) store"
| "apply_op store (AllCellsAttempted i) = write_status i MarkCompleted store"

definition run_ops :: "stored_role list \<Rightarrow> pipeline_op list \<Rightarrow> stored_role list" where
  "run_ops store ops = foldl apply_op store ops"

section \<open>Sample data\<close>

definition witness_role :: "string \<Rightarrow> bool \<Rightarrow> Role" where
  "witness_role i a =
     \<lparr>role_id = i, role_company_id = ''c1'', role_name = ''Software Engineer'',
      role_is_active = a, role_created_at = ''2024-01-01'', role_updated_at = ''2024-01-01''\<rparr>"

definition witness_nudge :: "string \<Rightarrow> Nudge" where
  "witness_nudge i =
     \<lparr>nudge_id = i, nudge_employee_id = ''u2'', nudge_company_id = ''c1'',
      nudge_role_name = ''Software Engineer'', nudge_level_name = None,
      nudge_status = pending, nudge_is_active = True, nudge_created_at = ''2024-01-01'',
      nudge_updated_at = ''2024-01-01'', nudge_employee_name = Some ''Ada''\<rparr>"

definition witness_user :: User where
  "witness_user =
     \<lparr>user_id = ''u1'', user_email = ''m@example.com'', user_name = ''Max'',
      user_role = manager, user_company_id = ''c1'', user_is_active = True,
      user_created_at = ''2024-01-01'', user_updated_at = ''2024-01-01''\<rparr>"

definition witness_company :: Company where
  "witness_company =
     \<lparr>company_id = ''c1'', company_name = ''Acme'', company_domain = None,
      company_invite_code = ''ABC123XY'', company_is_active = True,
      company_created_at = ''2024-01-01'', company_updated_at = ''2024-01-01''\<rparr>"

definition witness_auth :: AuthState where
  "witness_auth =
     \<lparr>user = Some witness_user, company = Some witness_company, isLoading = False,
      isAuthenticated = True\<rparr>"

definition witness_grid :: "string \<Rightarrow> RoleDetail" where
  "witness_grid i =
     \<lparr>role_id = i, role_company_id = ''c1'', role_name = ''Software Engineer'',
      role_is_active = True, role_created_at = ''2024-01-01'', role_updated_at = ''2024-01-01'',
      levels = [], competencies = [], definitions = []\<rparr>"

definition witness_status ::
  "string \<Rightarrow> processing_state \<Rightarrow> string option \<Rightarrow> ProcessingStatus fetched" where
  "witness_status i s m =
     Inr \<lparr>ok = True, json = Inr \<lparr>ps_role_id = i, ps_status = s, ps_message = m\<rparr>\<rparr>"

definition witness_server :: "string \<Rightarrow> RoleDetail fetched" where
  "witness_server i =
     (if i = ''r2'' then Inr \<lparr>ok = True, json = Inr (witness_grid ''r2'')\<rparr>
      else Inr \<lparr>ok = False, json = Inl (Error ''Not Found'')\<rparr>)"

definition sample_level :: "string \<Rightarrow> string \<Rightarrow> Level" where
  "sample_level i n =
     \<lparr>level_id = i, level_company_id = ''c1'', level_role_id = ''r1'', level_name = n,
      level_order_idx = 0, level_is_active = True, level_created_at = ''2024-01-01'',
      level_updated_at = ''2024-01-01''\<rparr>"

definition sample_competency :: "string \<Rightarrow> string \<Rightarrow> Competency" where
  "sample_competency i n =
     \<lparr>comp_id = i, comp_company_id = ''c1'', comp_role_id = ''r1'', comp_name = n,
      comp_order_idx = 0, comp_is_active = True, comp_created_at = ''2024-01-01'',
      comp_updated_at = ''2024-01-01''\<rparr>"


definition sample_definition ::
  "string \<Rightarrow> string \<Rightarrow> string \<Rightarrow> Example list \<Rightarrow> DefinitionWithExamples" where
  "sample_definition l c t es =
     \<lparr>def_id = ''d1'', def_level_id = l, def_level_name = [], def_competency_id = c,
      def_competency_name = [], def_definition = t, def_examples = es\<rparr>"


definition colliding_grid :: RoleDetail where
  "colliding_grid =
     \<lparr>role_id = ''r1'', role_company_id = ''c1'', role_name = ''Software Engineer'',
      role_is_active = True, role_created_at = ''2024-01-01'', role_updated_at = ''2024-01-01'',
      levels = [sample_level ''a'' ''L1'', sample_level ''a-b'' ''L2''],
      competencies = [sample_competency ''b-c'' ''Scope'', sample_competency ''c'' ''Communication''],
      definitions = [sample_definition ''a-b'' ''c'' ''Leads projects'' []]\<rparr>"

definition sample_form :: UploadForm_state where
  "sample_form =
     \<lparr>u_companyUrl = ''https://acme.com'', u_roleName = ''Software Engineer'',
      u_file = Some \<lparr>file_name = ''guide.pdf'', file_size = 1024\<rparr>, u_status = st_idle,
      u_error = None, u_showConfirmOverwrite = False, u_existingRoleDate = None\<rparr>"

definition sample_backend :: "network \<Rightarrow> backend" where
  "sample_backend net =
     \<lparr>b_check = fetch_check net [witness_role ''r1'' True] ''Software Engineer'',
      b_create = Inr \<lparr>cr_ok = True, cr_detail = Inr None, cr_role = Inr (witness_role ''r2'' True)\<rparr>,
      b_status = [witness_status ''r2'' completed None],
      b_role = witness_server\<rparr>"

section \<open>Properties\<close>

subsection \<open>Requests\<close>

lemma request_Inr_iff:
  "request msg f = Inr v \<longleftrightarrow> (\<exists>r. f = Inr r \<and> ok r \<and> json r = Inr v)"
  by (auto simp: request_def split: sum.splits)

subsection \<open>Dashboard\<close>

lemma cards_guidesSection:
  "cards (guidesSection fmt rs) = map (guideCard fmt) (activeRoles rs)"
  by (simp add: guidesSection_def)

lemma Dashboard_renders_page:
  assumes "\<not> isLoading auth" and "user auth = Some u" and "company auth = Some c"
    and "\<not> d_loadingData st"
  shows "\<exists>p. Dashboard fmt auth st = PageView p \<and>
             page_guides p = guidesSection fmt (d_roles st) \<and>
             page_error p = (case d_error st of
                               None \<Rightarrow> None
                             | Some e \<Rightarrow> if truthy e then Some e else None)"
  using assms by (simp add: Dashboard_def)

lemma fetchData_success:
  "getRoles fr = Inr rolesData \<Longrightarrow> getNudges fn = Inr nudgesData \<Longrightarrow>
   fetchData fr fn st = st\<lparr>d_roles := rolesData, d_nudges := nudgesData, d_loadingData := False\<rparr>"
  by (simp add: fetchData_def)

lemma fetchData_failure:
  "(\<exists>e. getRoles fr = Inl e) \<or> (\<exists>e. getNudges fn = Inl e) \<Longrightarrow>
   fetchData fr fn st = st\<lparr>d_error := Some ''Failed to load data'', d_loadingData := False\<rparr>"
  by (auto simp: fetchData_def split: sum.splits)

text \<open>
  C8 (as amended). For a signed-in user (auth loaded, user and company present) the
  page is rendered once the component's own loading flag is cleared, and the cards
  of its leveling-guides list are exactly the cards of the roles the component holds
  whose \<open>is_active\<close> flag is true, in order. The component holds the list the list
  endpoint returned only when the nudges request of the same load also succeeded
  (both are awaited together): then every active role of the returned list has its
  card, every card is the card of an active role of that list, and an inactive role
  contributes none. When either request fails the returned list is dropped: the
  page shows the roles held before and the error \<open>Failed to load data\<close>.
\<close>

theorem dashboard_lists_exactly_active_roles:
  assumes "\<not> isLoading auth" and "user auth = Some u" and "company auth = Some c"
  shows
    "(\<forall>rolesData nudgesData.
        getRoles fr = Inr rolesData \<and> getNudges fn = Inr nudgesData \<longrightarrow>
        (\<exists>p. Dashboard fmt auth (fetchData fr fn st) = PageView p \<and>
             cards (page_guides p) = map (guideCard fmt) (filter role_is_active rolesData) \<and>
             (\<forall>r \<in> set rolesData.
                role_is_active r \<longrightarrow> guideCard fmt r \<in> set (cards (page_guides p))) \<and>
             (\<forall>c \<in> set (cards (page_guides p)).
                \<exists>r \<in> set rolesData. role_is_active r \<and> c = guideCard fmt r))) \<and>
     ((\<exists>e. getRoles fr = Inl e) \<or> (\<exists>e. getNudges fn = Inl e) \<longrightarrow>
        (\<exists>p. Dashboard fmt auth (fetchData fr fn st) = PageView p \<and>
             cards (page_guides p) = map (guideCard fmt) (filter role_is_active (d_roles st)) \<and>
             page_error p = Some ''Failed to load data'')) \<and>
     (\<not> d_loadingData st \<longrightarrow>
        (\<exists>p. Dashboard fmt auth st = PageView p \<and>
             cards (page_guides p) = map (guideCard fmt) (filter role_is_active (d_roles st))))"
proof (intro conjI allI impI)
  fix rolesData nudgesData
  assume ok: "getRoles fr = Inr rolesData \<and> getNudges fn = Inr nudgesData"
  let ?st = "st\<lparr>d_roles := rolesData, d_nudges := nudgesData, d_loadingData := False\<rparr>"
  have f: "fetchData fr fn st = ?st"
    using ok by (simp add: fetchData_success)
  have "\<not> d_loadingData ?st" by simp
  from Dashboard_renders_page [OF assms this, of fmt] obtain p where
    p: "Dashboard fmt auth ?st = PageView p" and g: "page_guides p = guidesSection fmt (d_roles ?st)"
    by blast
  have c: "cards (page_guides p) = map (guideCard fmt) (filter role_is_active rolesData)"
    by (simp add: g cards_guidesSection activeRoles_def)
  have "Dashboard fmt auth (fetchData fr fn st) = PageView p"
    by (simp only: f p)
  moreover have "\<forall>r \<in> set rolesData.
      role_is_active r \<longrightarrow> guideCard fmt r \<in> set (cards (page_guides p))"
    by (simp add: c)
  moreover have "\<forall>c \<in> set (cards (page_guides p)).
      \<exists>r \<in> set rolesData. role_is_active r \<and> c = guideCard fmt r"
    by (auto simp: c)
  ultimately show "\<exists>p. Dashboard fmt auth (fetchData fr fn st) = PageView p \<and>
             cards (page_guides p) = map (guideCard fmt) (filter role_is_active rolesData) \<and>
             (\<forall>r \<in> set rolesData.
                role_is_active r \<longrightarrow> guideCard fmt r \<in> set (cards (page_guides p))) \<and>
             (\<forall>c \<in> set (cards (page_guides p)).
                \<exists>r \<in> set rolesData. role_is_active r \<and> c = guideCard fmt r)"
    using c by blast
next
  assume bad: "(\<exists>e. getRoles fr = Inl e) \<or> (\<exists>e. getNudges fn = Inl e)"
  let ?st = "st\<lparr>d_error := Some ''Failed to load data'', d_loadingData := False\<rparr>"
  have f: "fetchData fr fn st = ?st"
    by (rule fetchData_failure [OF bad])
  have "\<not> d_loadingData ?st" by simp
  from Dashboard_renders_page [OF assms this, of fmt] obtain p where
    p: "Dashboard fmt auth ?st = PageView p" and g: "page_guides p = guidesSection fmt (d_roles ?st)"
    and e: "page_error p = (case d_error ?st of None \<Rightarrow> None
                             | Some e \<Rightarrow> if truthy e then Some e else None)"
    by blast
  have "cards (page_guides p) = map (guideCard fmt) (filter role_is_active (d_roles st))"
    by (simp add: g cards_guidesSection activeRoles_def)
  moreover have "page_error p = Some ''Failed to load data''"
    by (simp add: e truthy_def)
  moreover have "Dashboard fmt auth (fetchData fr fn st) = PageView p"
    by (simp only: f p)
  ultimately show "\<exists>p. Dashboard fmt auth (fetchData fr fn st) = PageView p \<and>
             cards (page_guides p) = map (guideCard fmt) (filter role_is_active (d_roles st)) \<and>
             page_error p = Some ''Failed to load data''"
    by blast
next
  assume l: "\<not> d_loadingData st"
  from Dashboard_renders_page [OF assms l, of fmt] obtain p where
    p: "Dashboard fmt auth st = PageView p" and g: "page_guides p = guidesSection fmt (d_roles st)"
    by blast
  have "cards (page_guides p) = map (guideCard fmt) (filter role_is_active (d_roles st))"
    by (simp add: g cards_guidesSection activeRoles_def)
  with p show "\<exists>p. Dashboard fmt auth st = PageView p \<and>
             cards (page_guides p) = map (guideCard fmt) (filter role_is_active (d_roles st))"
    by blast
qed

theorem dashboard_lists_exactly_active_roles_witness:
  "\<exists>p. Dashboard id witness_auth
          (fetchData (Inr \<lparr>ok = True, json = Inr [witness_role ''r1'' True, witness_role ''r2'' False]\<rparr>)
             (Inr \<lparr>ok = True, json = Inr []\<rparr>) Dashboard_init) = PageView p \<and>
       cards (page_guides p) = [guideCard id (witness_role ''r1'' True)] \<and>
       guideCard id (witness_role ''r2'' False) \<notin> set (cards (page_guides p))"
proof -
  let ?fr = "Inr \<lparr>ok = True, json = Inr [witness_role ''r1'' True, witness_role ''r2'' False]\<rparr>
               :: Role list fetched"
  let ?fn = "Inr \<lparr>ok = True, json = Inr []\<rparr> :: Nudge list fetched"
  let ?rs = "[witness_role ''r1'' True, witness_role ''r2'' False]"
  have a: "\<not> isLoading witness_auth" "user witness_auth = Some witness_user"
    "company witness_auth = Some witness_company"
    by (simp_all add: witness_auth_def)
  have ok: "getRoles ?fr = Inr ?rs \<and> getNudges ?fn = Inr []"
    by (simp add: getRoles_def getNudges_def request_def)
  have fl: "filter role_is_active ?rs = [witness_role ''r1'' True]"
    by (simp add: witness_role_def)
  have ne: "guideCard id (witness_role ''r2'' False) \<noteq> guideCard id (witness_role ''r1'' True)"
    by (simp add: witness_role_def guideCard_def)
  note t = dashboard_lists_exactly_active_roles [OF a, of ?fr ?fn id Dashboard_init,
      THEN conjunct1, rule_format, OF ok]
  from t obtain p where
    p: "Dashboard id witness_auth (fetchData ?fr ?fn Dashboard_init) = PageView p" and
    c: "cards (page_guides p) = map (guideCard id) (filter role_is_active ?rs)"
    by blast
  from c have c': "cards (page_guides p) = [guideCard id (witness_role ''r1'' True)]"
    by (simp only: fl list.map)
  have "guideCard id (witness_role ''r2'' False) \<notin> set (cards (page_guides p))"
    using ne by (simp only: c' list.set) simp
  with p c' show ?thesis by blast
qed

theorem dashboard_drops_roles_when_nudges_fail:
  "getRoles (Inr \<lparr>ok = True, json = Inr [witness_role ''r1'' True]\<rparr>)
     = Inr [witness_role ''r1'' True] \<and>
   role_is_active (witness_role ''r1'' True) \<and>
   Dashboard id witness_auth
     (fetchData (Inr \<lparr>ok = True, json = Inr [witness_role ''r1'' True]\<rparr>)
        (Inr \<lparr>ok = False, json = Inr []\<rparr>) Dashboard_init)
     = PageView \<lparr>page_isManager = True, page_requests = [],
                 page_error = Some ''Failed to load data'', page_guides = EmptyState\<rparr> \<and>
   guideCard id (witness_role ''r1'' True) \<notin> set (cards EmptyState)"
proof -
  let ?fr = "Inr \<lparr>ok = True, json = Inr [witness_role ''r1'' True]\<rparr> :: Role list fetched"
  let ?fn = "Inr \<lparr>ok = False, json = Inr []\<rparr> :: Nudge list fetched"
  let ?st = "Dashboard_init\<lparr>d_error := Some ''Failed to load data'', d_loadingData := False\<rparr>"
  have r: "getRoles ?fr = Inr [witness_role ''r1'' True]"
    by (simp add: getRoles_def request_def)
  have n: "getNudges ?fn = Inl (Error ''Failed to get requests'')"
    by (simp add: getNudges_def request_def)
  have f: "fetchData ?fr ?fn Dashboard_init = ?st"
    by (rule fetchData_failure) (simp add: n)
  have i: "d_roles Dashboard_init = []" "d_nudges Dashboard_init = []"
    by (simp_all add: Dashboard_init_def)
  have d: "Dashboard id witness_auth ?st
     = PageView \<lparr>page_isManager = True, page_requests = [],
                 page_error = Some ''Failed to load data'', page_guides = EmptyState\<rparr>"
    by (simp add: Dashboard_def witness_auth_def witness_user_def guidesSection_def
        activeRoles_def pendingNudges_def truthy_def i)
  have a: "role_is_active (witness_role ''r1'' True)"
    by (simp add: witness_role_def)
  have "Dashboard id witness_auth (fetchData ?fr ?fn Dashboard_init)
     = PageView \<lparr>page_isManager = True, page_requests = [],
                 page_error = Some ''Failed to load data'', page_guides = EmptyState\<rparr>"
    by (simp only: f d)
  with r a show ?thesis by simp
qed

text \<open>
  C10. When the PATCH succeeds, the new nudge list has the old one's length and
  order; at every position a nudge with the given id is replaced by itself with only
  the status field set (every other field, the id included, is the old one), and a
  nudge with another id is unchanged; nothing else of the component's state changes.
  When the request fails, the state is the old one with only the error message set,
  so the list is unchanged.
\<close>

theorem nudge_action_changes_only_that_nudge:
  "(\<forall>n'. updateNudge f = Inr n' \<longrightarrow>
      length (d_nudges (handleNudgeAction f nudgeId status st)) = length (d_nudges st) \<and>
      (\<forall>i < length (d_nudges st).
         d_nudges (handleNudgeAction f nudgeId status st) ! i =
           (if nudge_id (d_nudges st ! i) = nudgeId
            then (d_nudges st ! i)\<lparr>nudge_status := status\<rparr>
            else d_nudges st ! i)) \<and>
      handleNudgeAction f nudgeId status st =
        st\<lparr>d_nudges := d_nudges (handleNudgeAction f nudgeId status st)\<rparr>) \<and>
   (\<forall>e. updateNudge f = Inl e \<longrightarrow>
      handleNudgeAction f nudgeId status st = st\<lparr>d_error := Some ''Failed to update request''\<rparr> \<and>
      d_nudges (handleNudgeAction f nudgeId status st) = d_nudges st)"
  by (auto simp: handleNudgeAction_def)

theorem nudge_action_changes_only_that_nudge_witness:
  "d_nudges (handleNudgeAction (Inr \<lparr>ok = True, json = Inr (witness_nudge ''n2'')\<rparr>)
      ''n2'' dismissed (Dashboard_init\<lparr>d_nudges := [witness_nudge ''n1'', witness_nudge ''n2'']\<rparr>))
     = [witness_nudge ''n1'', (witness_nudge ''n2'')\<lparr>nudge_status := dismissed\<rparr>] \<and>
   handleNudgeAction (Inr \<lparr>ok = False, json = Inr (witness_nudge ''n2'')\<rparr>)
      ''n2'' dismissed (Dashboard_init\<lparr>d_nudges := [witness_nudge ''n1'', witness_nudge ''n2'']\<rparr>)
     = Dashboard_init\<lparr>d_nudges := [witness_nudge ''n1'', witness_nudge ''n2''],
         d_error := Some ''Failed to update request''\<rparr>"
proof -
  let ?st = "Dashboard_init\<lparr>d_nudges := [witness_nudge ''n1'', witness_nudge ''n2'']\<rparr>"
  let ?good = "Inr \<lparr>ok = True, json = Inr (witness_nudge ''n2'')\<rparr> :: Nudge fetched"
  let ?bad = "Inr \<lparr>ok = False, json = Inr (witness_nudge ''n2'')\<rparr> :: Nudge fetched"
  let ?new = "d_nudges (handleNudgeAction ?good ''n2'' dismissed ?st)"
  have g: "updateNudge ?good = Inr (witness_nudge ''n2'')"
    by (simp add: updateNudge_def request_def)
  have b: "updateNudge ?bad = Inl (Error ''Failed to update request'')"
    by (simp add: updateNudge_def request_def)
  have i1: "nudge_id (witness_nudge ''n1'') \<noteq> ''n2''"
    by (simp add: witness_nudge_def)
  have i2: "nudge_id (witness_nudge ''n2'') = ''n2''"
    by (simp add: witness_nudge_def)
  have old: "d_nudges ?st = [witness_nudge ''n1'', witness_nudge ''n2'']"
    by simp
  from nudge_action_changes_only_that_nudge [of ?good "''n2''" dismissed ?st] g
  have t: "length ?new = length (d_nudges ?st) \<and>
      (\<forall>i < length (d_nudges ?st). ?new ! i =
           (if nudge_id (d_nudges ?st ! i) = ''n2''
            then (d_nudges ?st ! i)\<lparr>nudge_status := dismissed\<rparr> else d_nudges ?st ! i))"
    by blast
  from t have l: "length ?new = 2"
    by (simp only: old) simp
  from t have "0 < length (d_nudges ?st) \<longrightarrow> ?new ! 0 =
           (if nudge_id (d_nudges ?st ! 0) = ''n2''
            then (d_nudges ?st ! 0)\<lparr>nudge_status := dismissed\<rparr> else d_nudges ?st ! 0)"
    by blast
  then have a0: "?new ! 0 = witness_nudge ''n1''"
    by (simp only: old) (simp add: i1)
  from t have "1 < length (d_nudges ?st) \<longrightarrow> ?new ! 1 =
           (if nudge_id (d_nudges ?st ! 1) = ''n2''
            then (d_nudges ?st ! 1)\<lparr>nudge_status := dismissed\<rparr> else d_nudges ?st ! 1)"
    by blast
  then have a1: "?new ! 1 = (witness_nudge ''n2'')\<lparr>nudge_status := dismissed\<rparr>"
    by (simp only: old) (simp add: i2)
  have n: "?new = [witness_nudge ''n1'', (witness_nudge ''n2'')\<lparr>nudge_status := dismissed\<rparr>]"
  proof (rule nth_equalityI)
    show "length ?new = length [witness_nudge ''n1'', (witness_nudge ''n2'')\<lparr>nudge_status := dismissed\<rparr>]"
      using l by simp
  next
    fix i assume "i < length ?new"
    then have "i = 0 \<or> i = 1" using l by auto
    then show "?new ! i = [witness_nudge ''n1'', (witness_nudge ''n2'')\<lparr>nudge_status := dismissed\<rparr>] ! i"
      using a0 a1 by auto
  qed
  from nudge_action_changes_only_that_nudge [of ?bad "''n2''" dismissed ?st] b
  have m: "handleNudgeAction ?bad ''n2'' dismissed ?st
      = ?st\<lparr>d_error := Some ''Failed to update request''\<rparr>"
    by blast
  show ?thesis
    by (rule conjI) (rule n, rule m)
qed

subsection \<open>Waiting for a role\<close>

lemma returns_normally_all: "returns_normally cb \<Longrightarrow> snd (notify cb s) = None"
  by (cases s) (simp_all add: returns_normally_def)

lemma notify_events: "fst (notify cb s) = (case cb of None \<Rightarrow> [] | Some _ \<Rightarrow> [StatusChange s])"
  by (simp add: notify_def split: option.splits)

lemma notify_no_requests:
  "filter is_timer (fst (notify cb s)) = []"
  "filter is_status_request (fst (notify cb s)) = []"
  "filter is_role_request (fst (notify cb s)) = []"
  by (simp_all add: notify_def split: option.splits)

lemma poll_processing_step:
  assumes "saw processing f" and "returns_normally cb"
  shows "poll F r cb pi (f # fs) =
           (StatusRequest r # fst (notify cb processing) @ SetTimeout pi # fst (poll F r cb pi fs),
            snd (poll F r cb pi fs))"
proof -
  from assms(1) obtain st where st: "getRoleStatus f = Inr st" "ps_status st = processing"
    by (auto simp: saw_def split: sum.splits)
  obtain called where c: "notify cb processing = (called, None)"
    using returns_normally_all [OF assms(2), of processing] by (cases "notify cb processing") auto
  show ?thesis
    by (simp add: st c split: prod.splits)
qed

lemma poll_completed_step:
  assumes "getRoleStatus f = Inr st" and "ps_status st = completed" and "returns_normally cb"
  shows "poll F r cb pi (f # fs) =
           (StatusRequest r # fst (notify cb completed) @ [RoleRequest (or_else (ps_role_id st) r)],
            Some (case getRole (F (or_else (ps_role_id st) r)) of
                    Inr role \<Rightarrow> Resolved role | Inl e \<Rightarrow> Rejected e))"
proof -
  obtain called where c: "notify cb completed = (called, None)"
    using returns_normally_all [OF assms(3), of completed] by (cases "notify cb completed") auto
  show ?thesis
    by (simp add: assms(1,2) c Let_def split: sum.splits)
qed

lemma poll_failed_step:
  assumes "getRoleStatus f = Inr st" and "ps_status st = failed" and "returns_normally cb"
  shows "poll F r cb pi (f # fs) =
           (StatusRequest r # fst (notify cb failed),
            Some (Rejected (Error (opt_or_else (ps_message st) ''Role processing failed''))))"
proof -
  obtain called where c: "notify cb failed = (called, None)"
    using returns_normally_all [OF assms(3), of failed] by (cases "notify cb failed") auto
  show ?thesis
    by (simp add: assms(1,2) c)
qed

declare poll.simps(2) [simp del]

lemma poll_error_step:
  "getRoleStatus f = Inl e \<Longrightarrow> poll F r cb pi (f # fs) = ([StatusRequest r], Some (Rejected e))"
  by (simp add: poll.simps(2))

lemma poll_processing_prefix:
  assumes "\<forall>f \<in> set ps. saw processing f" and "returns_normally cb"
  shows "poll F r cb pi (ps @ rest) =
           (concat (map (\<lambda>_. StatusRequest r # fst (notify cb processing) @ [SetTimeout pi]) ps)
              @ fst (poll F r cb pi rest),
            snd (poll F r cb pi rest))"
  using assms(1)
proof (induction ps)
  case Nil
  show ?case by simp
next
  case (Cons f ps)
  then have "saw processing f" and "\<forall>f \<in> set ps. saw processing f" by simp_all
  then show ?case
    using Cons.IH by (simp add: poll_processing_step [OF _ assms(2)])
qed

lemma poll_Resolved_D:
  assumes "returns_normally cb"
  shows "snd (poll F r cb pi fs) = Some (Resolved role) \<Longrightarrow>
         \<exists>ps f rest st. fs = ps @ f # rest \<and> (\<forall>p \<in> set ps. saw processing p) \<and>
            getRoleStatus f = Inr st \<and> ps_status st = completed \<and>
            getRole (F (or_else (ps_role_id st) r)) = Inr role"
proof (induction fs)
  case Nil
  then show ?case by simp
next
  case (Cons f fs)
  show ?case
  proof (cases "getRoleStatus f")
    case (Inl e)
    with Cons.prems show ?thesis by (simp add: poll_error_step)
  next
    case (Inr st)
    show ?thesis
    proof (cases "ps_status st")
      case processing
      with Inr have sp: "saw processing f" by (simp add: saw_def)
      with Cons.prems have "snd (poll F r cb pi fs) = Some (Resolved role)"
        by (simp add: poll_processing_step [OF sp assms])
      from Cons.IH [OF this] obtain ps g rest st' where
        "fs = ps @ g # rest" "\<forall>p \<in> set ps. saw processing p"
        "getRoleStatus g = Inr st'" "ps_status st' = completed"
        "getRole (F (or_else (ps_role_id st') r)) = Inr role"
        by blast
      with sp have "f # fs = (f # ps) @ g # rest \<and> (\<forall>p \<in> set (f # ps). saw processing p) \<and>
            getRoleStatus g = Inr st' \<and> ps_status st' = completed \<and>
            getRole (F (or_else (ps_role_id st') r)) = Inr role"
        by simp
      then show ?thesis by blast
    next
      case completed
      with Cons.prems Inr have "getRole (F (or_else (ps_role_id st) r)) = Inr role"
        by (simp add: poll_completed_step [OF Inr completed assms] split: sum.splits)
      with Inr completed have "f # fs = [] @ f # fs \<and> (\<forall>p \<in> set []. saw processing p) \<and>
            getRoleStatus f = Inr st \<and> ps_status st = completed \<and>
            getRole (F (or_else (ps_role_id st) r)) = Inr role"
        by simp
      then show ?thesis by blast
    next
      case failed
      with Cons.prems Inr show ?thesis
        by (simp add: poll_failed_step [OF Inr failed assms])
    qed
  qed
qed

lemma split_at_index:
  assumes "k < length fs" and "\<forall>j<k. P (fs ! j)"
  shows "fs = take k fs @ fs ! k # drop (Suc k) fs \<and> (\<forall>p \<in> set (take k fs). P p)"
proof -
  have "\<forall>p \<in> set (take k fs). P p"
  proof
    fix p assume "p \<in> set (take k fs)"
    then obtain j where "j < length (take k fs)" "take k fs ! j = p"
      by (auto simp: in_set_conv_nth)
    with assms show "P p" by auto
  qed
  then show ?thesis using assms(1) by (simp add: id_take_nth_drop [symmetric])
qed


lemma or_else_if: "or_else a b = (if a = [] then b else a)"
  by (simp add: or_else_def truthy_def)

lemma opt_or_else_case:
  "opt_or_else m d = (case m of None \<Rightarrow> d | Some s \<Rightarrow> if s = [] then d else s)"
  by (simp add: opt_or_else_def or_else_if split: option.splits)

lemma poll_at_index:
  assumes "returns_normally cb" and "k < length fs" and "\<forall>j<k. saw processing (fs ! j)"
  shows "poll F r cb pi fs =
           (concat (replicate k (StatusRequest r # fst (notify cb processing) @ [SetTimeout pi]))
              @ fst (poll F r cb pi (fs ! k # drop (Suc k) fs)),
            snd (poll F r cb pi (fs ! k # drop (Suc k) fs)))"
proof -
  from split_at_index [OF assms(2,3)]
  have eq: "fs = take k fs @ fs ! k # drop (Suc k) fs"
    and pre: "\<forall>p \<in> set (take k fs). saw processing p"
    by blast+
  have len: "length (take k fs) = k" using assms(2) by simp
  have "poll F r cb pi (take k fs @ fs ! k # drop (Suc k) fs) =
          (concat (map (\<lambda>_. StatusRequest r # fst (notify cb processing) @ [SetTimeout pi])
                    (take k fs))
             @ fst (poll F r cb pi (fs ! k # drop (Suc k) fs)),
           snd (poll F r cb pi (fs ! k # drop (Suc k) fs)))"
    by (rule poll_processing_prefix [OF pre assms(1)])
  then show ?thesis
    using eq len by (simp add: map_replicate_const)
qed

lemma poll_all_processing:
  assumes "returns_normally cb" and "\<forall>j<length fs. saw processing (fs ! j)"
  shows "poll F r cb pi fs =
           (concat (replicate (length fs)
                      (StatusRequest r # fst (notify cb processing) @ [SetTimeout pi]))
              @ [StatusRequest r], None)"
proof -
  have "\<forall>p \<in> set fs. saw processing p"
    using assms(2) by (auto simp: in_set_conv_nth)
  from poll_processing_prefix [OF this assms(1), of F r pi "[]"]
  show ?thesis by (simp add: map_replicate_const)
qed

lemma filter_rounds:
  "filter is_timer (concat (replicate k (StatusRequest r # fst (notify cb s) @ [SetTimeout pi])))
     = replicate k (SetTimeout pi)"
  "filter is_status_request
     (concat (replicate k (StatusRequest r # fst (notify cb s) @ [SetTimeout pi])))
     = replicate k (StatusRequest r)"
  "filter is_role_request
     (concat (replicate k (StatusRequest r # fst (notify cb s) @ [SetTimeout pi]))) = []"
  by (induction k) (simp_all add: notify_no_requests)

text \<open>
  C1. Provided the status callback (if one is given) returns normally: the promise
  resolves with a grid exactly when some status request is answered \<open>completed\<close>,
  every earlier one having been answered \<open>processing\<close>, and \<open>getRole\<close> returns that grid
  for the identifier of the status response, or for the \<open>roleId\<close> passed in when the
  response's \<open>role_id\<close> is empty. At such a \<open>completed\<close> answer exactly one role request
  is made, under that identifier (so a role recreated by a re-upload is fetched under
  its new identifier), and the promise settles with what \<open>getRole\<close> gives for it.
\<close>

theorem waitForRole_resolves_exactly_on_completed:
  assumes "returns_normally onStatusChange"
  shows
    "(snd (waitForRole fetchRole fs roleId onStatusChange pollInterval) = Some (Resolved role) \<longleftrightarrow>
        (\<exists>k st. k < length fs \<and> (\<forall>j<k. saw processing (fs ! j)) \<and>
           getRoleStatus (fs ! k) = Inr st \<and> ps_status st = completed \<and>
           getRole (fetchRole (if ps_role_id st = [] then roleId else ps_role_id st)) = Inr role)) \<and>
     (\<forall>k st. k < length fs \<and> (\<forall>j<k. saw processing (fs ! j)) \<and>
           getRoleStatus (fs ! k) = Inr st \<and> ps_status st = completed \<longrightarrow>
        filter is_role_request (fst (waitForRole fetchRole fs roleId onStatusChange pollInterval))
          = [RoleRequest (if ps_role_id st = [] then roleId else ps_role_id st)] \<and>
        snd (waitForRole fetchRole fs roleId onStatusChange pollInterval)
          = Some (case getRole (fetchRole (if ps_role_id st = [] then roleId else ps_role_id st)) of
                    Inr role \<Rightarrow> Resolved role | Inl e \<Rightarrow> Rejected e))"
proof -
  let ?pi = "case pollInterval of None \<Rightarrow> 2000 | Some ms \<Rightarrow> ms"
  let ?W = "waitForRole fetchRole fs roleId onStatusChange pollInterval"
  have W: "?W = poll fetchRole roleId onStatusChange ?pi fs"
    by (simp add: waitForRole_def)
  have at: "filter is_role_request (fst ?W) = [RoleRequest (if ps_role_id st = [] then roleId else ps_role_id st)] \<and>
        snd ?W = Some (case getRole (fetchRole (if ps_role_id st = [] then roleId else ps_role_id st)) of
                    Inr role \<Rightarrow> Resolved role | Inl e \<Rightarrow> Rejected e)"
    if k: "k < length fs" "\<forall>j<k. saw processing (fs ! j)"
      and st: "getRoleStatus (fs ! k) = Inr st" "ps_status st = completed" for k st
  proof -
    note p = poll_at_index [OF assms k, of fetchRole roleId ?pi]
    note c = poll_completed_step [OF st assms, of fetchRole roleId ?pi "drop (Suc k) fs"]
    show ?thesis
      unfolding W p c
      by (simp add: filter_rounds notify_no_requests or_else_if)
  qed
  have "\<exists>k st. k < length fs \<and> (\<forall>j<k. saw processing (fs ! j)) \<and>
           getRoleStatus (fs ! k) = Inr st \<and> ps_status st = completed \<and>
           getRole (fetchRole (if ps_role_id st = [] then roleId else ps_role_id st)) = Inr role"
    if "snd ?W = Some (Resolved role)"
  proof -
    from that have "snd (poll fetchRole roleId onStatusChange ?pi fs) = Some (Resolved role)"
      by (simp only: W)
    from poll_Resolved_D [OF assms this] obtain ps f rest st where
      fs: "fs = ps @ f # rest" and pre: "\<forall>p \<in> set ps. saw processing p" and
      st: "getRoleStatus f = Inr st" "ps_status st = completed" and
      g: "getRole (fetchRole (or_else (ps_role_id st) roleId)) = Inr role"
      by blast
    have "length ps < length fs" using fs by simp
    moreover have "\<forall>j<length ps. saw processing (fs ! j)"
      using fs pre by (simp add: nth_append)
    moreover have "fs ! length ps = f" using fs by simp
    moreover have "getRole (fetchRole (if ps_role_id st = [] then roleId else ps_role_id st)) = Inr role"
      using g by (simp only: or_else_if)
    ultimately show ?thesis
      using st by blast
  qed
  moreover have "snd ?W = Some (Resolved role)"
    if "\<exists>k st. k < length fs \<and> (\<forall>j<k. saw processing (fs ! j)) \<and>
           getRoleStatus (fs ! k) = Inr st \<and> ps_status st = completed \<and>
           getRole (fetchRole (if ps_role_id st = [] then roleId else ps_role_id st)) = Inr role"
  proof -
    from that obtain k st where k: "k < length fs" "\<forall>j<k. saw processing (fs ! j)"
      and st: "getRoleStatus (fs ! k) = Inr st" "ps_status st = completed"
      and g: "getRole (fetchRole (if ps_role_id st = [] then roleId else ps_role_id st)) = Inr role"
      by blast
    from at [OF k st] g show ?thesis by simp
  qed
  ultimately show ?thesis using at by blast
qed

text \<open>
  C2. Provided the status callback (if one is given) returns normally: when a status
  request is answered \<open>failed\<close>, every earlier one having been answered \<open>processing\<close>,
  the promise is rejected with an \<open>Error\<close> whose message is the response's message, or
  \<open>Role processing failed\<close> when the response has no message or an empty one, and the
  trace holds no role request at all.
\<close>

theorem waitForRole_rejects_on_failed:
  assumes "returns_normally onStatusChange"
    and "k < length fs" and "\<forall>j<k. saw processing (fs ! j)"
    and "getRoleStatus (fs ! k) = Inr st" and "ps_status st = failed"
  shows "snd (waitForRole fetchRole fs roleId onStatusChange pollInterval)
           = Some (Rejected (Error (case ps_message st of
                                      None \<Rightarrow> ''Role processing failed''
                                    | Some m \<Rightarrow> if m = [] then ''Role processing failed'' else m))) \<and>
         (\<forall>i. RoleRequest i \<notin> set (fst (waitForRole fetchRole fs roleId onStatusChange pollInterval)))"
proof -
  let ?pi = "case pollInterval of None \<Rightarrow> 2000 | Some ms \<Rightarrow> ms"
  let ?W = "waitForRole fetchRole fs roleId onStatusChange pollInterval"
  have W: "?W = poll fetchRole roleId onStatusChange ?pi fs"
    by (simp add: waitForRole_def)
  note p = poll_at_index [OF assms(1,2,3), of fetchRole roleId ?pi]
  note c = poll_failed_step [OF assms(4,5,1), of fetchRole roleId ?pi "drop (Suc k) fs"]
  have out: "snd ?W = Some (Rejected (Error (opt_or_else (ps_message st) ''Role processing failed'')))"
    unfolding W p c by simp
  have "filter is_role_request (fst ?W) = []"
    unfolding W p c by (simp add: filter_rounds notify_no_requests)
  then have "\<forall>e \<in> set (fst ?W). \<not> is_role_request e"
    by (simp add: filter_empty_conv)
  then have "\<forall>i. RoleRequest i \<notin> set (fst ?W)"
    by fastforce
  with out show ?thesis
    by (simp add: opt_or_else_case)
qed

text \<open>
  C3. Provided the status callback (if one is given) returns normally: after \<open>k\<close>
  status requests answered \<open>processing\<close>, the trace consists of \<open>k\<close> rounds of
  status request, callback, \<open>setTimeout\<close> with the poll interval (2000 when none is
  passed), followed by the next status request; the promise is pending while that
  request is unanswered. When it is answered \<open>completed\<close> or \<open>failed\<close> the promise
  settles and nothing after that status request is a timer or a status request,
  however many further answers the server would have had: in all, \<open>k\<close> timers of the
  one interval and \<open>k + 1\<close> status requests.
\<close>

theorem waitForRole_polls_at_fixed_interval:
  assumes "returns_normally onStatusChange"
    and "k \<le> length fs" and "\<forall>j<k. saw processing (fs ! j)"
  shows
    "(k = length fs \<longrightarrow>
        waitForRole fetchRole fs roleId onStatusChange pollInterval =
          (concat (replicate k
             (StatusRequest roleId # fst (notify onStatusChange processing) @
              [SetTimeout (case pollInterval of None \<Rightarrow> 2000 | Some ms \<Rightarrow> ms)]))
             @ [StatusRequest roleId], None)) \<and>
     (k < length fs \<and> (saw completed (fs ! k) \<or> saw failed (fs ! k)) \<longrightarrow>
        snd (waitForRole fetchRole fs roleId onStatusChange pollInterval) \<noteq> None \<and>
        (\<exists>rest.
           fst (waitForRole fetchRole fs roleId onStatusChange pollInterval) =
             concat (replicate k
               (StatusRequest roleId # fst (notify onStatusChange processing) @
                [SetTimeout (case pollInterval of None \<Rightarrow> 2000 | Some ms \<Rightarrow> ms)]))
             @ StatusRequest roleId # rest \<and>
           filter is_timer rest = [] \<and> filter is_status_request rest = []) \<and>
        filter is_timer (fst (waitForRole fetchRole fs roleId onStatusChange pollInterval))
          = replicate k (SetTimeout (case pollInterval of None \<Rightarrow> 2000 | Some ms \<Rightarrow> ms)) \<and>
        filter is_status_request (fst (waitForRole fetchRole fs roleId onStatusChange pollInterval))
          = replicate (Suc k) (StatusRequest roleId))"
proof -
  let ?pi = "case pollInterval of None \<Rightarrow> 2000 | Some ms \<Rightarrow> ms"
  let ?W = "waitForRole fetchRole fs roleId onStatusChange pollInterval"
  let ?rounds = "concat (replicate k
               (StatusRequest roleId # fst (notify onStatusChange processing) @ [SetTimeout ?pi]))"
  have W: "?W = poll fetchRole roleId onStatusChange ?pi fs"
    by (simp add: waitForRole_def)
  have pending: "?W = (?rounds @ [StatusRequest roleId], None)" if "k = length fs"
    using poll_all_processing [OF assms(1), of fs fetchRole roleId ?pi] assms(3) that
    by (simp add: W)
  have terminal:
    "snd ?W \<noteq> None \<and>
     (\<exists>rest. fst ?W = ?rounds @ StatusRequest roleId # rest \<and>
        filter is_timer rest = [] \<and> filter is_status_request rest = []) \<and>
     filter is_timer (fst ?W) = replicate k (SetTimeout ?pi) \<and>
     filter is_status_request (fst ?W) = replicate (Suc k) (StatusRequest roleId)"
    if k: "k < length fs" and t: "saw completed (fs ! k) \<or> saw failed (fs ! k)"
  proof -
    note p = poll_at_index [OF assms(1) k assms(3), of fetchRole roleId ?pi]
    from t obtain st where st: "getRoleStatus (fs ! k) = Inr st"
      "ps_status st = completed \<or> ps_status st = failed"
      by (auto simp: saw_def split: sum.splits)
    from st(2) obtain rest out where
      step: "poll fetchRole roleId onStatusChange ?pi (fs ! k # drop (Suc k) fs)
               = (StatusRequest roleId # rest, Some out)"
      and rest: "filter is_timer rest = []" "filter is_status_request rest = []"
    proof
      assume c: "ps_status st = completed"
      show ?thesis
        by (rule that [OF poll_completed_step [OF st(1) c assms(1)]])
           (simp_all add: notify_no_requests)
    next
      assume f: "ps_status st = failed"
      show ?thesis
        by (rule that [OF poll_failed_step [OF st(1) f assms(1)]])
           (simp_all add: notify_no_requests)
    qed
    have tr: "fst ?W = ?rounds @ StatusRequest roleId # rest" and o: "snd ?W = Some out"
      unfolding W p step by simp_all
    have "filter is_timer (fst ?W) = replicate k (SetTimeout ?pi)"
      unfolding tr by (simp add: filter_rounds rest)
    moreover have "filter is_status_request (fst ?W) = replicate (Suc k) (StatusRequest roleId)"
      unfolding tr by (simp add: filter_rounds rest replicate_append_same)
    ultimately show ?thesis using tr o rest by blast
  qed
  show ?thesis using pending terminal by blast
qed


lemma getRoleStatus_witness_status:
  "getRoleStatus (witness_status i s m) = Inr \<lparr>ps_role_id = i, ps_status = s, ps_message = m\<rparr>"
  by (simp add: getRoleStatus_def request_def witness_status_def)

lemma saw_witness_status: "saw s' (witness_status i s m) = (s = s')"
  by (simp add: saw_def getRoleStatus_witness_status)

lemma returns_normally_None: "returns_normally None"
  by (simp add: returns_normally_def notify_def)

theorem waitForRole_resolves_exactly_on_completed_witness:
  "returns_normally None \<and>
   snd (waitForRole witness_server
          [witness_status ''r1'' processing None, witness_status ''r2'' completed None]
          ''r1'' None None) = Some (Resolved (witness_grid ''r2'')) \<and>
   filter is_role_request (fst (waitForRole witness_server
          [witness_status ''r1'' processing None, witness_status ''r2'' completed None]
          ''r1'' None None)) = [RoleRequest ''r2'']"
proof -
  let ?fs = "[witness_status ''r1'' processing None, witness_status ''r2'' completed None]"
  let ?st = "\<lparr>ps_role_id = ''r2'', ps_status = completed, ps_message = None\<rparr>"
  have a: "1 < length ?fs \<and> (\<forall>j<1. saw processing (?fs ! j)) \<and>
           getRoleStatus (?fs ! 1) = Inr ?st \<and> ps_status ?st = completed"
    by (simp add: saw_witness_status getRoleStatus_witness_status)
  have i: "(if ps_role_id ?st = [] then ''r1'' else ps_role_id ?st) = ''r2''"
    by simp
  have g: "getRole (witness_server ''r2'') = Inr (witness_grid ''r2'')"
    by (simp add: getRole_def request_def witness_server_def)
  note t = waitForRole_resolves_exactly_on_completed [OF returns_normally_None,
      of witness_server ?fs "''r1''" None "witness_grid ''r2''", THEN conjunct2,
      rule_format, OF a]
  from t have "filter is_role_request (fst (waitForRole witness_server ?fs ''r1'' None None))
                 = [RoleRequest ''r2''] \<and>
               snd (waitForRole witness_server ?fs ''r1'' None None)
                 = Some (Resolved (witness_grid ''r2''))"
    by (simp only: i g sum.case)
  with returns_normally_None show ?thesis by blast
qed

theorem waitForRole_rejects_on_failed_witness:
  "returns_normally None \<and>
   snd (waitForRole witness_server
          [witness_status ''r1'' processing None,
           witness_status ''r1'' failed (Some ''Could not parse the guide'')]
          ''r1'' None None) = Some (Rejected (Error ''Could not parse the guide'')) \<and>
   RoleRequest ''r1'' \<notin> set (fst (waitForRole witness_server
          [witness_status ''r1'' processing None,
           witness_status ''r1'' failed (Some ''Could not parse the guide'')]
          ''r1'' None None))"
proof -
  let ?fs = "[witness_status ''r1'' processing None,
              witness_status ''r1'' failed (Some ''Could not parse the guide'')]"
  let ?st = "\<lparr>ps_role_id = ''r1'', ps_status = failed,
              ps_message = Some ''Could not parse the guide''\<rparr>"
  have k: "1 < length ?fs" by simp
  have p: "\<forall>j<1. saw processing (?fs ! j)" by (simp add: saw_witness_status)
  have g: "getRoleStatus (?fs ! 1) = Inr ?st" by (simp add: getRoleStatus_witness_status)
  have f: "ps_status ?st = failed" by simp
  have m: "(case ps_message ?st of None \<Rightarrow> ''Role processing failed''
            | Some m \<Rightarrow> if m = [] then ''Role processing failed'' else m)
           = ''Could not parse the guide''"
    by simp
  note t = waitForRole_rejects_on_failed [OF returns_normally_None k p g f,
      of witness_server "''r1''" None]
  from t have "snd (waitForRole witness_server ?fs ''r1'' None None)
                 = Some (Rejected (Error ''Could not parse the guide''))"
    by (simp only: m)
  moreover from t have "RoleRequest ''r1'' \<notin> set (fst (waitForRole witness_server ?fs ''r1'' None None))"
    by blast
  ultimately show ?thesis using returns_normally_None by blast
qed

theorem waitForRole_polls_at_fixed_interval_witness:
  "returns_normally None \<and>
   filter is_timer (fst (waitForRole witness_server
      [witness_status ''r1'' processing None, witness_status ''r1'' processing None,
       witness_status ''r2'' completed None, witness_status ''r2'' completed None]
      ''r1'' None None)) = [SetTimeout 2000, SetTimeout 2000] \<and>
   filter is_status_request (fst (waitForRole witness_server
      [witness_status ''r1'' processing None, witness_status ''r1'' processing None,
       witness_status ''r2'' completed None, witness_status ''r2'' completed None]
      ''r1'' None None)) = [StatusRequest ''r1'', StatusRequest ''r1'', StatusRequest ''r1''] \<and>
   waitForRole witness_server
      [witness_status ''r1'' processing None, witness_status ''r1'' processing None]
      ''r1'' None (Some 500)
     = ([StatusRequest ''r1'', SetTimeout 500, StatusRequest ''r1'', SetTimeout 500,
         StatusRequest ''r1''], None)"
proof -
  let ?fs = "[witness_status ''r1'' processing None, witness_status ''r1'' processing None,
       witness_status ''r2'' completed None, witness_status ''r2'' completed None]"
  let ?ps = "[witness_status ''r1'' processing None, witness_status ''r1'' processing None]"
  have k: "2 \<le> length ?fs" by simp
  have p: "\<forall>j<2. saw processing (?fs ! j)"
    by (simp add: saw_witness_status less_Suc_eq numeral_2_eq_2)
  have c: "2 < length ?fs \<and> (saw completed (?fs ! 2) \<or> saw failed (?fs ! 2))"
    by (simp add: saw_witness_status)
  note t = waitForRole_polls_at_fixed_interval [OF returns_normally_None k p,
      of witness_server "''r1''" None, THEN conjunct2, rule_format, OF c]
  from t have
    1: "filter is_timer (fst (waitForRole witness_server ?fs ''r1'' None None))
         = replicate 2 (SetTimeout (case None of None \<Rightarrow> 2000 | Some ms \<Rightarrow> ms))" and
    2: "filter is_status_request (fst (waitForRole witness_server ?fs ''r1'' None None))
         = replicate (Suc 2) (StatusRequest ''r1'')"
    by blast+
  have k': "2 \<le> length ?ps" by simp
  have p': "\<forall>j<2. saw processing (?ps ! j)"
    by (simp add: saw_witness_status less_Suc_eq numeral_2_eq_2)
  have l: "2 = length ?ps" by simp
  note u = waitForRole_polls_at_fixed_interval [OF returns_normally_None k' p',
      of witness_server "''r1''" "Some 500", THEN conjunct1, rule_format, OF l]
  have 3: "waitForRole witness_server ?ps ''r1'' None (Some 500)
     = ([StatusRequest ''r1'', SetTimeout 500, StatusRequest ''r1'', SetTimeout 500,
         StatusRequest ''r1''], None)"
    unfolding u by (simp add: notify_def numeral_2_eq_2)
  from 1 2 3 returns_normally_None show ?thesis
    by (simp add: numeral_2_eq_2)
qed

subsection \<open>Results view\<close>

lemma find_definition_Some:
  "find_definition (Some l) (Some c) ds =
     Inr (find (\<lambda>d. def_level_id d = level_id l \<and> def_competency_id d = comp_id c) ds)"
  by (induction ds) auto

lemma js_nth_in_range: "0 \<le> i \<Longrightarrow> i < int (length xs) \<Longrightarrow> js_nth xs i = Some (xs ! nat i)"
  by (simp add: js_nth_def)

lemma target_in_range:
  assumes "0 \<le> li" "li < nL" "0 \<le> ci" "ci < nC" "target dir nL nC li ci = (li', ci')"
  shows "0 \<le> li' \<and> li' < nL \<and> 0 \<le> ci' \<and> ci' < nC"
  using assms by (cases dir) (auto simp: target_def split: if_splits)

lemma navigateModal_at:
  assumes "rv_role st = Some r" and "rv_modalData st = Some m"
    and "0 \<le> md_levelIdx m" "md_levelIdx m < int (length (levels r))"
    and "0 \<le> md_compIdx m" "md_compIdx m < int (length (competencies r))"
    and "target dir (int (length (levels r))) (int (length (competencies r)))
           (md_levelIdx m) (md_compIdx m) = (li, ci)"
  shows "navigateModal dir st =
           Inr (case find (\<lambda>d. def_level_id d = level_id (levels r ! nat li) \<and>
                              def_competency_id d = comp_id (competencies r ! nat ci))
                       (definitions r) of
                  None \<Rightarrow> st
                | Some d \<Rightarrow>
                    st\<lparr>rv_modalData :=
                         Some \<lparr>md_definition = d, md_levelName = level_name (levels r ! nat li),
                               md_competencyName = comp_name (competencies r ! nat ci),
                               md_levelIdx = li, md_compIdx = ci\<rparr>,
                       rv_compareMode := False\<rparr>)"
proof -
  from target_in_range [OF assms(3-7)]
  have r: "0 \<le> li" "li < int (length (levels r))" "0 \<le> ci" "ci < int (length (competencies r))"
    by simp_all
  have t: "(if dir = Next then
              (if md_levelIdx m + 1 \<ge> int (length (levels r)) then
                 (0, if md_compIdx m + 1 \<ge> int (length (competencies r)) then 0
                     else md_compIdx m + 1)
               else (md_levelIdx m + 1, md_compIdx m))
            else
              (if md_levelIdx m - 1 < 0 then
                 (int (length (levels r)) - 1,
                  if md_compIdx m - 1 < 0 then int (length (competencies r)) - 1
                  else md_compIdx m - 1)
               else (md_levelIdx m - 1, md_compIdx m))) = (li, ci)"
    using assms(7) by (cases dir) (auto simp: target_def split: if_splits)
  have "navigateModal dir st =
          (case find_definition (js_nth (levels r) li) (js_nth (competencies r) ci)
                  (definitions r) of
             Inl e \<Rightarrow> Inl e
           | Inr None \<Rightarrow> Inr st
           | Inr (Some newDef) \<Rightarrow>
               (case (js_nth (levels r) li, js_nth (competencies r) ci) of
                  (Some l, Some c) \<Rightarrow>
                    Inr (st\<lparr>rv_modalData :=
                              Some \<lparr>md_definition = newDef, md_levelName = level_name l,
                                    md_competencyName = comp_name c,
                                    md_levelIdx = li, md_compIdx = ci\<rparr>,
                            rv_compareMode := False\<rparr>)
                | _ \<Rightarrow> Inl TypeError))"
    unfolding navigateModal_def assms(1,2)
    by (simp only: prod.case option.case Let_def t)
  also have "js_nth (levels r) li = Some (levels r ! nat li)"
    by (rule js_nth_in_range [OF r(1,2)])
  also have "js_nth (competencies r) ci = Some (competencies r ! nat ci)"
    by (rule js_nth_in_range [OF r(3,4)])
  finally show ?thesis
    by (simp add: find_definition_Some split: option.splits)
qed

lemma fold_definitionMap:
  "fold (\<lambda>d m. m(cell_key (def_level_id d) (def_competency_id d) \<mapsto> d)) defs m0 k =
     (case filter (\<lambda>d. cell_key (def_level_id d) (def_competency_id d) = k) defs of
        [] \<Rightarrow> m0 k
      | d # ds \<Rightarrow> Some (last (d # ds)))"
proof (induction defs arbitrary: m0)
  case Nil
  show ?case by simp
next
  case (Cons d defs)
  let ?f = "\<lambda>d m. m(cell_key (def_level_id d) (def_competency_id d) \<mapsto> d)"
  let ?P = "\<lambda>d. cell_key (def_level_id d) (def_competency_id d) = k"
  have "fold ?f (d # defs) m0 k = fold ?f defs (?f d m0) k"
    by (simp only: fold_simps)
  also have "\<dots> = (case filter ?P defs of [] \<Rightarrow> (?f d m0) k | x # xs \<Rightarrow> Some (last (x # xs)))"
    by (rule Cons.IH)
  also have "\<dots> = (case filter ?P (d # defs) of [] \<Rightarrow> m0 k | x # xs \<Rightarrow> Some (last (x # xs)))"
    by (cases "?P d") (simp_all split: list.splits)
  finally show ?case .
qed

lemma definitionMap_lookup:
  "definitionMap defs k =
     (case filter (\<lambda>d. cell_key (def_level_id d) (def_competency_id d) = k) defs of
        [] \<Rightarrow> None
      | d # ds \<Rightarrow> Some (last (d # ds)))"
  by (simp add: definitionMap_def fold_definitionMap)

lemma definitionMap_SomeD:
  assumes "definitionMap defs k = Some d"
  shows "d \<in> set defs \<and> cell_key (def_level_id d) (def_competency_id d) = k"
proof -
  let ?ds = "filter (\<lambda>d. cell_key (def_level_id d) (def_competency_id d) = k) defs"
  from assms have ne: "?ds \<noteq> []" and d: "d = last ?ds"
    by (auto simp: definitionMap_lookup split: list.splits)
  from ne have "last ?ds \<in> set ?ds" by (rule last_in_set)
  with d show ?thesis by simp
qed

lemma grid_cell_onClick:
  assumes "row \<in> set (grid_rows r)" and "cell \<in> set (gr_cells row)"
    and "gc_onClick cell = Some m"
  shows "md_definition m \<in> set (definitions r) \<and>
         0 \<le> md_levelIdx m \<and> md_levelIdx m < int (length (levels r)) \<and>
         0 \<le> md_compIdx m \<and> md_compIdx m < int (length (competencies r))"
proof -
  from assms(1) obtain ci c where ci: "(ci, c) \<in> set (enumerate 0 (competencies r))"
    and row: "row = \<lparr>gr_key = comp_id c, gr_label = comp_name c,
             gr_cells = map (\<lambda>(levelIdx, level).
                      render_cell (definitionMap (definitions r)) c ci level levelIdx)
                 (enumerate 0 (levels r))\<rparr>"
    by (auto simp: grid_rows_def)
  from assms(2) row obtain li l where li: "(li, l) \<in> set (enumerate 0 (levels r))"
    and cell: "cell = render_cell (definitionMap (definitions r)) c ci l li"
    by auto
  from ci have cr: "ci < length (competencies r)" by (simp add: in_set_enumerate_eq)
  from li have lr: "li < length (levels r)" by (simp add: in_set_enumerate_eq)
  from assms(3) cell obtain d where
    d: "definitionMap (definitions r) (cell_key (level_id l) (comp_id c)) = Some d"
    and m: "m = \<lparr>md_definition = d, md_levelName = level_name l,
                    md_competencyName = comp_name c, md_levelIdx = int li,
                    md_compIdx = int ci\<rparr>"
    by (auto simp: render_cell_def Let_def split: option.splits)
  from definitionMap_SomeD [OF d] have "d \<in> set (definitions r)" by simp
  with m cr lr show ?thesis by simp
qed

lemma reachable_ResultsView_inv: "reachable r st \<Longrightarrow> ResultsView_inv r st"
proof (induction rule: reachable.induct)
  case (loaded f)
  then show ?case
    by (simp add: ResultsView_inv_def ResultsView_fetchRole_def ResultsView_init_def)
next
  case (click st row cell)
  show ?case
  proof (cases "gc_onClick cell")
    case None
    with click.IH show ?thesis by (simp add: click_cell_def)
  next
    case (Some m)
    from grid_cell_onClick [OF click.hyps(2,3) Some] click.IH Some
    show ?thesis by (simp add: click_cell_def openModal_def ResultsView_inv_def)
  qed
next
  case (navigate st d st')
  from navigate.IH have role: "rv_role st = Some r" by (simp add: ResultsView_inv_def)
  show ?case
  proof (cases "rv_modalData st")
    case None
    with navigate.hyps(2) role have "st' = st" by (simp add: navigateModal_def)
    with navigate.IH show ?thesis by simp
  next
    case (Some m)
    with navigate.IH have v: "0 \<le> md_levelIdx m" "md_levelIdx m < int (length (levels r))"
      "0 \<le> md_compIdx m" "md_compIdx m < int (length (competencies r))"
      by (simp_all add: ResultsView_inv_def)
    obtain li ci where t: "target d (int (length (levels r))) (int (length (competencies r)))
           (md_levelIdx m) (md_compIdx m) = (li, ci)"
      by (cases "target d (int (length (levels r))) (int (length (competencies r)))
           (md_levelIdx m) (md_compIdx m)") blast
    note n = navigateModal_at [OF role Some v t]
    note rg = target_in_range [OF v t]
    let ?P = "\<lambda>d. def_level_id d = level_id (levels r ! nat li) \<and>
                  def_competency_id d = comp_id (competencies r ! nat ci)"
    show ?thesis
    proof (cases "find ?P (definitions r)")
      case None
      with n navigate.hyps(2) have "st' = st" by simp
      with navigate.IH show ?thesis by simp
    next
      case (Some d')
      then have "d' \<in> set (definitions r)"
        by (auto simp: find_Some_iff)
      moreover from navigate.IH have "\<not> rv_loading st" "rv_error st = None"
        by (simp_all add: ResultsView_inv_def)
      ultimately show ?thesis
        using n navigate.hyps(2) Some rg role by (auto simp: ResultsView_inv_def)
    qed
  qed
next
  case (close st)
  then show ?case by (simp add: ResultsView_inv_def closeModal_def)
next
  case (compare st b)
  then show ?case by (simp add: ResultsView_inv_def)
qed

lemma grid_rows_nth:
  assumes "ci < length (competencies r)" and "li < length (levels r)"
  shows "ci < length (grid_rows r) \<and> li < length (gr_cells (grid_rows r ! ci)) \<and>
         gr_label (grid_rows r ! ci) = comp_name (competencies r ! ci) \<and>
         gr_cells (grid_rows r ! ci) ! li =
           render_cell (definitionMap (definitions r)) (competencies r ! ci) ci (levels r ! li) li"
  using assms by (simp add: grid_rows_def nth_enumerate_eq)


lemma ResultsView_inv_renders:
  assumes "ResultsView_inv r st"
  shows "ResultsView st =
           ResultsPage \<lparr>rp_title = role_name r @ '' Leveling Guide'',
                        rp_header = map level_name (levels r),
                        rp_rows = grid_rows r,
                        rp_modal = map_option render_modal (rv_modalData st)\<rparr>"
  using assms by (simp add: ResultsView_inv_def ResultsView_def opt_or_else_def truthy_def)


lemma sample_selectors:
  "level_id (sample_level i n) = i" "level_name (sample_level i n) = n"
  "comp_id (sample_competency i n) = i" "comp_name (sample_competency i n) = n"
  "def_level_id (sample_definition l c t es) = l"
  "def_competency_id (sample_definition l c t es) = c"
  "def_definition (sample_definition l c t es) = t"
  "def_examples (sample_definition l c t es) = es"
  by (simp_all add: sample_level_def sample_competency_def sample_definition_def)




lemma colliding_grid_parts:
  "levels colliding_grid = [sample_level ''a'' ''L1'', sample_level ''a-b'' ''L2'']"
  "competencies colliding_grid = [sample_competency ''b-c'' ''Scope'', sample_competency ''c'' ''Communication'']"
  "definitions colliding_grid = [sample_definition ''a-b'' ''c'' ''Leads projects'' []]"
  by (simp_all add: colliding_grid_def)

lemma grid_cell_view:
  assumes "ci < length (competencies r)" and "li < length (levels r)"
    and "\<forall>d \<in> set (definitions r).
           cell_key (def_level_id d) (def_competency_id d)
             = cell_key (level_id (levels r ! li)) (comp_id (competencies r ! ci)) \<longrightarrow>
           def_level_id d = level_id (levels r ! li) \<and>
           def_competency_id d = comp_id (competencies r ! ci)"
  shows "gc_view (gr_cells (grid_rows r ! ci) ! li) =
           (case filter (\<lambda>d. def_level_id d = level_id (levels r ! li) \<and>
                               def_competency_id d = comp_id (competencies r ! ci))
                   (definitions r) of
              [] \<Rightarrow> NoData
            | d # ds \<Rightarrow>
                Requirement (def_definition (last (d # ds)))
                  (if def_examples (last (d # ds)) = [] then None
                   else Some (length (def_examples (last (d # ds))))))"
proof -
  let ?k = "cell_key (level_id (levels r ! li)) (comp_id (competencies r ! ci))"
  have "filter (\<lambda>d. cell_key (def_level_id d) (def_competency_id d) = ?k) (definitions r)
        = filter (\<lambda>d. def_level_id d = level_id (levels r ! li) \<and>
                       def_competency_id d = comp_id (competencies r ! ci)) (definitions r)"
    using assms(3) by (intro filter_cong) auto
  then have l: "definitionMap (definitions r) ?k =
      (case filter (\<lambda>d. def_level_id d = level_id (levels r ! li) \<and>
                       def_competency_id d = comp_id (competencies r ! ci)) (definitions r) of
         [] \<Rightarrow> None | d # ds \<Rightarrow> Some (last (d # ds)))"
    by (simp only: definitionMap_lookup)
  from grid_rows_nth [OF assms(1,2)]
  have c: "gr_cells (grid_rows r ! ci) ! li =
           render_cell (definitionMap (definitions r)) (competencies r ! ci) ci (levels r ! li) li"
    by blast
  show ?thesis
    unfolding c by (simp add: render_cell_def l split: list.splits)
qed

text \<open>
  C5 (failing input). The grid looks a cell's definition up under the string
  \<open>level_id-competency_id\<close>. With level ids \<open>a\<close>, \<open>a-b\<close> and competency ids \<open>b-c\<close>, \<open>c\<close>
  and one definition, for the pair (\<open>a-b\<close>, \<open>c\<close>), the list holds no definition for the
  pair (\<open>a\<close>, \<open>b-c\<close>) and \<open>definitions.find\<close> of \<open>navigateModal\<close> finds none for it, yet
  the rendered cell of that pair shows the other pair's requirement, not the
  \<open>No data\<close> placeholder.
\<close>

theorem grid_cell_key_collision:
  "level_id (levels colliding_grid ! 0) = ''a'' \<and>
   comp_id (competencies colliding_grid ! 0) = ''b-c'' \<and>
   filter (\<lambda>d. def_level_id d = ''a'' \<and> def_competency_id d = ''b-c'')
     (definitions colliding_grid) = [] \<and>
   find_definition (js_nth (levels colliding_grid) 0) (js_nth (competencies colliding_grid) 0)
     (definitions colliding_grid) = Inr None \<and>
   (\<exists>page.
      ResultsView
        (ResultsView_fetchRole (Inr \<lparr>ok = True, json = Inr colliding_grid\<rparr>) ResultsView_init)
        = ResultsPage page \<and>
      gc_view (gr_cells (rp_rows page ! 0) ! 0) = Requirement ''Leads projects'' None)"
proof -
  let ?f = "Inr \<lparr>ok = True, json = Inr colliding_grid\<rparr> :: RoleDetail fetched"
  have g: "getRole ?f = Inr colliding_grid"
    by (simp add: getRole_def request_def)
  have inv: "ResultsView_inv colliding_grid (ResultsView_fetchRole ?f ResultsView_init)"
    by (rule reachable_ResultsView_inv [OF reachable.loaded [OF g]])
  note page = ResultsView_inv_renders [OF inv]
  have k: "definitionMap (definitions colliding_grid) (cell_key ''a'' ''b-c'')
             = Some (sample_definition ''a-b'' ''c'' ''Leads projects'' [])"
    by (simp add: definitionMap_lookup colliding_grid_parts sample_selectors cell_key_def)
  have "gr_cells (grid_rows colliding_grid ! 0) ! 0 =
          render_cell (definitionMap (definitions colliding_grid))
            (competencies colliding_grid ! 0) 0 (levels colliding_grid ! 0) 0"
    using grid_rows_nth [of 0 colliding_grid 0] by (simp add: colliding_grid_parts)
  then have v: "gc_view (gr_cells (grid_rows colliding_grid ! 0) ! 0)
                  = Requirement ''Leads projects'' None"
    by (simp add: render_cell_def colliding_grid_parts(1,2) sample_selectors k)
  have 1: "level_id (levels colliding_grid ! 0) = ''a''"
    "comp_id (competencies colliding_grid ! 0) = ''b-c''"
    by (simp_all add: colliding_grid_parts sample_selectors)
  have 2: "filter (\<lambda>d. def_level_id d = ''a'' \<and> def_competency_id d = ''b-c'')
     (definitions colliding_grid) = []"
    by (simp add: colliding_grid_parts sample_selectors)
  have 3: "find_definition (js_nth (levels colliding_grid) 0) (js_nth (competencies colliding_grid) 0)
     (definitions colliding_grid) = Inr None"
    by (simp add: js_nth_def colliding_grid_parts sample_selectors)
  from page v have "\<exists>page.
      ResultsView (ResultsView_fetchRole ?f ResultsView_init) = ResultsPage page \<and>
      gc_view (gr_cells (rp_rows page ! 0) ! 0) = Requirement ''Leads projects'' None"
    by simp
  with 1 2 3 show ?thesis by blast
qed

subsection \<open>Upload form\<close>



lemma doUpload_first_effect:
  "\<exists>rest. snd (doUpload b st) = CreateRequest (u_file st) (u_companyUrl st) (u_roleName st) # rest"
  by (auto simp: doUpload_def Let_def split: sum.splits prod.splits option.splits settled.splits)

lemma handleSubmit_missing:
  assumes "u_file st = None \<or> u_companyUrl st = [] \<or> u_roleName st = []"
  shows "handleSubmit b st =
           (st\<lparr>u_error := Some ''Please fill in all fields and upload a file''\<rparr>, [])"
  using assms by (auto simp: handleSubmit_def truthy_def)

lemma handleSubmit_exists:
  assumes "u_file st \<noteq> None" "u_companyUrl st \<noteq> []" "u_roleName st \<noteq> []"
    and "checkRoleExists (b_check b) = Inr check" and "chk_exists check"
  shows "handleSubmit b st =
           (st\<lparr>u_existingRoleDate := chk_created_at check, u_showConfirmOverwrite := True\<rparr>,
            [CheckRequest (u_roleName st)])"
  using assms by (simp add: handleSubmit_def truthy_def)

lemma handleSubmit_absent:
  assumes "u_file st \<noteq> None" "u_companyUrl st \<noteq> []" "u_roleName st \<noteq> []"
    and "checkRoleExists (b_check b) = Inr check" and "\<not> chk_exists check"
  shows "handleSubmit b st =
           (fst (doUpload b st), CheckRequest (u_roleName st) # snd (doUpload b st))"
  using assms by (simp add: handleSubmit_def truthy_def split: prod.splits)

lemma handleSubmit_check_failed:
  assumes "u_file st \<noteq> None" "u_companyUrl st \<noteq> []" "u_roleName st \<noteq> []"
    and "checkRoleExists (b_check b) = Inl e"
  shows "handleSubmit b st =
           (fst (doUpload b st), CheckRequest (u_roleName st) # Warn # snd (doUpload b st))"
  using assms by (simp add: handleSubmit_def truthy_def split: prod.splits)

lemma check_endpoint_exists:
  "chk_exists (check_endpoint roles name) \<longleftrightarrow>
     (\<exists>r \<in> set roles. role_name r = name \<and> role_is_active r)"
  by (auto simp: check_endpoint_def find_None_iff find_Some_iff split: option.splits)

lemma checkRoleExists_delivered:
  "checkRoleExists (fetch_check Delivered roles name) = Inr (check_endpoint roles name)"
  by (simp add: checkRoleExists_def request_def fetch_check_def)


lemma doUpload_hides_confirmation: "\<not> u_showConfirmOverwrite (fst (doUpload b st))"
  by (auto simp: doUpload_def Let_def split: sum.splits prod.splits option.splits settled.splits)

lemma check_endpoint_fields:
  assumes "chk_exists (check_endpoint roles name)"
  shows "\<exists>r \<in> set roles. role_name r = name \<and> role_is_active r \<and>
           chk_created_at (check_endpoint roles name) = Some (role_created_at r) \<and>
           chk_role_id (check_endpoint roles name) = Some (role_id r)"
proof (cases "find (\<lambda>r. role_name r = name \<and> role_is_active r) roles")
  case None
  with assms show ?thesis by (simp add: check_endpoint_def)
next
  case (Some r)
  then have "r \<in> set roles \<and> role_name r = name \<and> role_is_active r"
    by (auto simp: find_Some_iff)
  with Some show ?thesis by (auto simp: check_endpoint_def)
qed

text \<open>
  C6 (as amended). A submit with the file, the company URL or the role name missing
  sets the error and sends nothing, not even the existence check. With all three
  present: when the existence check answers and reports an existing role, the
  submit records its creation time, asks for confirmation and sends only the check,
  and the upload request with the form's file, URL and name is the first thing the
  confirmation button (\<open>doUpload\<close>) sends; when the check answers that no role
  exists, the submit uploads; when the check request fails, the failure is logged
  and the submit uploads without asking. So for a backend whose check endpoint is
  reached and has an active role of that name, the submit asks for confirmation and
  does not upload. \<open>doUpload\<close> always starts with the upload request and hides the
  confirmation.
\<close>

theorem upload_form_submit_guards:
  "(u_file st = None \<or> u_companyUrl st = [] \<or> u_roleName st = [] \<longrightarrow>
      handleSubmit b st =
        (st\<lparr>u_error := Some ''Please fill in all fields and upload a file''\<rparr>, [])) \<and>
   (u_file st \<noteq> None \<and> u_companyUrl st \<noteq> [] \<and> u_roleName st \<noteq> [] \<longrightarrow>
      (\<forall>check. checkRoleExists (b_check b) = Inr check \<and> chk_exists check \<longrightarrow>
         handleSubmit b st =
           (st\<lparr>u_existingRoleDate := chk_created_at check, u_showConfirmOverwrite := True\<rparr>,
            [CheckRequest (u_roleName st)]) \<and>
         (\<exists>rest. snd (doUpload b (fst (handleSubmit b st))) =
            CreateRequest (u_file st) (u_companyUrl st) (u_roleName st) # rest)) \<and>
      (\<forall>check. checkRoleExists (b_check b) = Inr check \<and> \<not> chk_exists check \<longrightarrow>
         handleSubmit b st =
           (fst (doUpload b st), CheckRequest (u_roleName st) # snd (doUpload b st))) \<and>
      (\<forall>e. checkRoleExists (b_check b) = Inl e \<longrightarrow>
         handleSubmit b st =
           (fst (doUpload b st), CheckRequest (u_roleName st) # Warn # snd (doUpload b st))) \<and>
      (\<forall>roles. b_check b = fetch_check Delivered roles (u_roleName st) \<and>
         (\<exists>r \<in> set roles. role_name r = u_roleName st \<and> role_is_active r) \<longrightarrow>
         u_showConfirmOverwrite (fst (handleSubmit b st)) \<and>
         snd (handleSubmit b st) = [CheckRequest (u_roleName st)])) \<and>
   (\<exists>rest. snd (doUpload b st) =
      CreateRequest (u_file st) (u_companyUrl st) (u_roleName st) # rest) \<and>
   \<not> u_showConfirmOverwrite (fst (doUpload b st))"
proof (intro conjI impI allI)
  assume "u_file st = None \<or> u_companyUrl st = [] \<or> u_roleName st = []"
  then show "handleSubmit b st =
        (st\<lparr>u_error := Some ''Please fill in all fields and upload a file''\<rparr>, [])"
    by (rule handleSubmit_missing)
next
  fix check
  assume p: "u_file st \<noteq> None \<and> u_companyUrl st \<noteq> [] \<and> u_roleName st \<noteq> []"
    and c: "checkRoleExists (b_check b) = Inr check \<and> chk_exists check"
  from p c show h: "handleSubmit b st =
           (st\<lparr>u_existingRoleDate := chk_created_at check, u_showConfirmOverwrite := True\<rparr>,
            [CheckRequest (u_roleName st)])"
    by (simp add: handleSubmit_exists)
  from doUpload_first_effect [of b "fst (handleSubmit b st)"]
  show "\<exists>rest. snd (doUpload b (fst (handleSubmit b st))) =
            CreateRequest (u_file st) (u_companyUrl st) (u_roleName st) # rest"
    by (simp add: h)
next
  fix check
  assume "u_file st \<noteq> None \<and> u_companyUrl st \<noteq> [] \<and> u_roleName st \<noteq> []"
    and "checkRoleExists (b_check b) = Inr check \<and> \<not> chk_exists check"
  then show "handleSubmit b st =
           (fst (doUpload b st), CheckRequest (u_roleName st) # snd (doUpload b st))"
    by (simp add: handleSubmit_absent)
next
  fix e
  assume "u_file st \<noteq> None \<and> u_companyUrl st \<noteq> [] \<and> u_roleName st \<noteq> []"
    and "checkRoleExists (b_check b) = Inl e"
  then show "handleSubmit b st =
           (fst (doUpload b st), CheckRequest (u_roleName st) # Warn # snd (doUpload b st))"
    by (simp add: handleSubmit_check_failed)
next
  fix roles
  assume p: "u_file st \<noteq> None \<and> u_companyUrl st \<noteq> [] \<and> u_roleName st \<noteq> []"
    and r: "b_check b = fetch_check Delivered roles (u_roleName st) \<and>
         (\<exists>r \<in> set roles. role_name r = u_roleName st \<and> role_is_active r)"
  from r have c: "checkRoleExists (b_check b) = Inr (check_endpoint roles (u_roleName st))"
    by (simp add: checkRoleExists_delivered)
  from r have e: "chk_exists (check_endpoint roles (u_roleName st))"
    by (simp add: check_endpoint_exists)
  from p c e have h: "handleSubmit b st =
           (st\<lparr>u_existingRoleDate := chk_created_at (check_endpoint roles (u_roleName st)),
               u_showConfirmOverwrite := True\<rparr>,
            [CheckRequest (u_roleName st)])"
    by (simp add: handleSubmit_exists)
  show "u_showConfirmOverwrite (fst (handleSubmit b st))" by (simp add: h)
  show "snd (handleSubmit b st) = [CheckRequest (u_roleName st)]" by (simp add: h)
next
  show "\<exists>rest. snd (doUpload b st) =
      CreateRequest (u_file st) (u_companyUrl st) (u_roleName st) # rest"
    by (rule doUpload_first_effect)
next
  show "\<not> u_showConfirmOverwrite (fst (doUpload b st))"
    by (rule doUpload_hides_confirmation)
qed

text \<open>
  C7. \<open>checkRoleExists\<close> returns exactly the body of an \<open>ok\<close> response. For the check
  endpoint as the spec describes it, reached by the request, that body says whether
  an active role of the name exists and, if so, carries the creation time and the
  identifier of such a role. When the form is submitted complete and the check
  reports an existing role, the form stores the reported creation time and the
  confirmation box shows the role name and that time, formatted as a date, after
  \<open>Created on\<close> (\<open>a previous date\<close> when the response has no creation time or an
  empty one).
\<close>

theorem check_existence_feeds_overwrite_prompt:
  "(checkRoleExists f = Inr check \<longleftrightarrow> (\<exists>r. f = Inr r \<and> ok r \<and> json r = Inr check)) \<and>
   checkRoleExists (fetch_check Delivered roles name) = Inr (check_endpoint roles name) \<and>
   (chk_exists (check_endpoint roles name) \<longleftrightarrow>
      (\<exists>r \<in> set roles. role_name r = name \<and> role_is_active r)) \<and>
   (chk_exists (check_endpoint roles name) \<longrightarrow>
      (\<exists>r \<in> set roles. role_name r = name \<and> role_is_active r \<and>
         chk_created_at (check_endpoint roles name) = Some (role_created_at r) \<and>
         chk_role_id (check_endpoint roles name) = Some (role_id r))) \<and>
   (u_file st \<noteq> None \<and> u_companyUrl st \<noteq> [] \<and> u_roleName st \<noteq> [] \<and>
    checkRoleExists (b_check b) = Inr check \<and> chk_exists check \<longrightarrow>
      u_existingRoleDate (fst (handleSubmit b st)) = chk_created_at check \<and>
      confirmOverwrite fmt (fst (handleSubmit b st)) =
        Some \<lparr>co_roleName = u_roleName st,
              co_createdOn =
                (case chk_created_at check of
                   None \<Rightarrow> ''a previous date''
                 | Some d \<Rightarrow> if d = [] then ''a previous date'' else fmt d)\<rparr>)"
proof -
  have 1: "checkRoleExists f = Inr check \<longleftrightarrow> (\<exists>r. f = Inr r \<and> ok r \<and> json r = Inr check)"
    by (simp add: checkRoleExists_def request_Inr_iff)
  have 5: "u_existingRoleDate (fst (handleSubmit b st)) = chk_created_at check \<and>
      confirmOverwrite fmt (fst (handleSubmit b st)) =
        Some \<lparr>co_roleName = u_roleName st,
              co_createdOn =
                (case chk_created_at check of
                   None \<Rightarrow> ''a previous date''
                 | Some d \<Rightarrow> if d = [] then ''a previous date'' else fmt d)\<rparr>"
    if "u_file st \<noteq> None \<and> u_companyUrl st \<noteq> [] \<and> u_roleName st \<noteq> [] \<and>
        checkRoleExists (b_check b) = Inr check \<and> chk_exists check"
  proof -
    from that have h: "handleSubmit b st =
           (st\<lparr>u_existingRoleDate := chk_created_at check, u_showConfirmOverwrite := True\<rparr>,
            [CheckRequest (u_roleName st)])"
      by (simp add: handleSubmit_exists)
    show ?thesis
      by (simp add: h confirmOverwrite_def truthy_def split: option.splits)
  qed
  from 1 5 checkRoleExists_delivered [of roles name] check_endpoint_exists [of roles name]
    check_endpoint_fields [of roles name]
  show ?thesis by blast
qed


lemma sample_form_fields:
  "u_file sample_form = Some \<lparr>file_name = ''guide.pdf'', file_size = 1024\<rparr>"
  "u_companyUrl sample_form = ''https://acme.com''"
  "u_roleName sample_form = ''Software Engineer''"
  by (simp_all add: sample_form_def)

lemma sample_check:
  "check_endpoint [witness_role ''r1'' True] ''Software Engineer''
     = \<lparr>chk_exists = True, chk_role_id = Some ''r1'', chk_created_at = Some ''2024-01-01''\<rparr>"
  by (simp add: check_endpoint_def witness_role_def)

lemma sample_backend_check:
  "b_check (sample_backend net) = fetch_check net [witness_role ''r1'' True] ''Software Engineer''"
  by (simp add: sample_backend_def)

theorem upload_form_submit_guards_witness:
  "handleSubmit (sample_backend Delivered) sample_form =
     (sample_form\<lparr>u_existingRoleDate := Some ''2024-01-01'', u_showConfirmOverwrite := True\<rparr>,
      [CheckRequest ''Software Engineer'']) \<and>
   handleSubmit (sample_backend Delivered) (sample_form\<lparr>u_roleName := []\<rparr>) =
     (sample_form\<lparr>u_roleName := [],
        u_error := Some ''Please fill in all fields and upload a file''\<rparr>, [])"
proof -
  let ?b = "sample_backend Delivered"
  let ?chk = "\<lparr>chk_exists = True, chk_role_id = Some ''r1'', chk_created_at = Some ''2024-01-01''\<rparr>"
  have p: "u_file sample_form \<noteq> None \<and> u_companyUrl sample_form \<noteq> [] \<and>
           u_roleName sample_form \<noteq> []"
    by (simp add: sample_form_fields)
  have c: "checkRoleExists (b_check ?b) = Inr ?chk \<and> chk_exists ?chk"
    by (simp add: sample_backend_check checkRoleExists_delivered sample_check)
  note t = upload_form_submit_guards [of sample_form ?b, THEN conjunct2, THEN conjunct1,
      THEN mp, OF p, THEN conjunct1, rule_format, OF c, THEN conjunct1]
  have 1: "handleSubmit ?b sample_form =
     (sample_form\<lparr>u_existingRoleDate := Some ''2024-01-01'', u_showConfirmOverwrite := True\<rparr>,
      [CheckRequest ''Software Engineer''])"
    unfolding t by (simp add: sample_form_fields)
  have m: "u_file (sample_form\<lparr>u_roleName := []\<rparr>) = None \<or>
           u_companyUrl (sample_form\<lparr>u_roleName := []\<rparr>) = [] \<or>
           u_roleName (sample_form\<lparr>u_roleName := []\<rparr>) = []"
    by simp
  note u = upload_form_submit_guards [of "sample_form\<lparr>u_roleName := []\<rparr>" ?b,
      THEN conjunct1, THEN mp, OF m]
  from 1 u show ?thesis by simp
qed

theorem upload_without_confirmation_when_check_fails:
  "(\<exists>r \<in> set [witness_role ''r1'' True].
      role_name r = u_roleName sample_form \<and> role_is_active r) \<and>
   b_check (sample_backend ServerError)
     = fetch_check ServerError [witness_role ''r1'' True] (u_roleName sample_form) \<and>
   CreateRequest (u_file sample_form) (u_companyUrl sample_form) (u_roleName sample_form)
     \<in> set (snd (handleSubmit (sample_backend ServerError) sample_form)) \<and>
   \<not> u_showConfirmOverwrite (fst (handleSubmit (sample_backend ServerError) sample_form))"
proof -
  let ?b = "sample_backend ServerError"
  have a: "\<exists>r \<in> set [witness_role ''r1'' True].
      role_name r = u_roleName sample_form \<and> role_is_active r"
    by (simp add: sample_form_fields witness_role_def)
  have k: "b_check ?b = fetch_check ServerError [witness_role ''r1'' True] (u_roleName sample_form)"
    by (simp add: sample_backend_check sample_form_fields)
  have e: "checkRoleExists (b_check ?b) = Inl (Error ''Failed to check role'')"
    by (simp add: sample_backend_check checkRoleExists_def request_def fetch_check_def)
  have h: "handleSubmit ?b sample_form =
           (fst (doUpload ?b sample_form),
            CheckRequest (u_roleName sample_form) # Warn # snd (doUpload ?b sample_form))"
    by (rule handleSubmit_check_failed [OF _ _ _ e]) (simp_all add: sample_form_fields)
  from doUpload_first_effect [of ?b sample_form] obtain rest where
    r: "snd (doUpload ?b sample_form) =
          CreateRequest (u_file sample_form) (u_companyUrl sample_form) (u_roleName sample_form) # rest"
    by blast
  have 1: "CreateRequest (u_file sample_form) (u_companyUrl sample_form) (u_roleName sample_form)
     \<in> set (snd (handleSubmit ?b sample_form))"
    by (simp add: h r)
  have 2: "\<not> u_showConfirmOverwrite (fst (handleSubmit ?b sample_form))"
    using doUpload_hides_confirmation [of ?b sample_form] by (simp add: h)
  from a k 1 2 show ?thesis by blast
qed

theorem check_existence_feeds_overwrite_prompt_witness:
  "checkRoleExists (fetch_check Delivered [witness_role ''r1'' True] ''Software Engineer'')
     = Inr \<lparr>chk_exists = True, chk_role_id = Some ''r1'', chk_created_at = Some ''2024-01-01''\<rparr> \<and>
   confirmOverwrite id (fst (handleSubmit (sample_backend Delivered) sample_form))
     = Some \<lparr>co_roleName = ''Software Engineer'', co_createdOn = ''2024-01-01''\<rparr>"
proof -
  let ?b = "sample_backend Delivered"
  let ?chk = "\<lparr>chk_exists = True, chk_role_id = Some ''r1'', chk_created_at = Some ''2024-01-01''\<rparr>"
  note t = check_existence_feeds_overwrite_prompt [of _ ?chk "[witness_role ''r1'' True]"
      "''Software Engineer''" sample_form ?b id]
  from t have "checkRoleExists (fetch_check Delivered [witness_role ''r1'' True] ''Software Engineer'')
     = Inr (check_endpoint [witness_role ''r1'' True] ''Software Engineer'')"
    by blast
  then have 1: "checkRoleExists (fetch_check Delivered [witness_role ''r1'' True] ''Software Engineer'')
     = Inr ?chk"
    by (simp only: sample_check)
  have p: "u_file sample_form \<noteq> None \<and> u_companyUrl sample_form \<noteq> [] \<and>
           u_roleName sample_form \<noteq> [] \<and>
           checkRoleExists (b_check ?b) = Inr ?chk \<and> chk_exists ?chk"
    by (simp add: sample_form_fields sample_backend_check 1)
  from t p have "confirmOverwrite id (fst (handleSubmit ?b sample_form)) =
        Some \<lparr>co_roleName = u_roleName sample_form,
              co_createdOn =
                (case chk_created_at ?chk of
                   None \<Rightarrow> ''a previous date''
                 | Some d \<Rightarrow> if d = [] then ''a previous date'' else id d)\<rparr>"
    by blast
  then have 2: "confirmOverwrite id (fst (handleSubmit ?b sample_form))
     = Some \<lparr>co_roleName = ''Software Engineer'', co_createdOn = ''2024-01-01''\<rparr>"
    by (simp add: sample_form_fields)
  from 1 2 show ?thesis by blast
qed

subsection \<open>Role status\<close>

lemma apply_op_length: "length store \<le> length (apply_op store op)"
  by (cases op) (simp_all add: submit_def write_status_def)

lemma apply_op_terminal:
  assumes "i < length store" and "sr_status (store ! i) \<noteq> processing"
  shows "sr_status (apply_op store op ! i) = sr_status (store ! i)"
proof (cases op)
  case (Submit name)
  with assms show ?thesis by (simp add: submit_def nth_append)
next
  case (ExtractorError j m)
  with assms show ?thesis
    by (cases "j = i") (simp_all add: write_status_def transition_def)
next
  case (ParserError j m)
  with assms show ?thesis
    by (cases "j = i") (simp_all add: write_status_def transition_def)
next
  case (AllCellsAttempted j)
  with assms show ?thesis
    by (cases "j = i") (simp_all add: write_status_def transition_def)
qed

lemma run_ops_terminal:
  assumes "i < length store" and "sr_status (store ! i) \<noteq> processing"
  shows "i < length (run_ops store ops) \<and>
         sr_status (run_ops store ops ! i) = sr_status (store ! i)"
  using assms
proof (induction ops arbitrary: store)
  case Nil
  then show ?case by (simp add: run_ops_def)
next
  case (Cons op ops)
  from Cons.prems(1) apply_op_length [of store op] have l: "i < length (apply_op store op)"
    by simp
  from apply_op_terminal [OF Cons.prems] have s: "sr_status (apply_op store op ! i) = sr_status (store ! i)" .
  with Cons.prems(2) have "sr_status (apply_op store op ! i) \<noteq> processing" by simp
  from Cons.IH [OF l this] s show ?case by (simp add: run_ops_def)
qed

lemma run_ops_append: "run_ops store (ops @ ops') = run_ops (run_ops store ops) ops'"
  by (simp add: run_ops_def)

text \<open>
  C4 (on the state machine as the spec describes it). Creating a Role puts it into
  the store in state \<open>processing\<close>, at a fresh identifier. Whatever the pipeline does
  afterwards (status writes for any Role, further submissions, re-uploads), a Role
  that has reached \<open>completed\<close> or \<open>failed\<close> keeps that state: no later state of the
  store has it back in \<open>processing\<close>.
\<close>

theorem role_status_is_monotonic:
  "length (run_ops store (ops @ [Submit name])) = Suc (length (run_ops store ops)) \<and>
   sr_status (run_ops store (ops @ [Submit name]) ! length (run_ops store ops)) = processing \<and>
   (\<forall>i ops'. i < length (run_ops store ops) \<and>
       sr_status (run_ops store ops ! i) \<noteq> processing \<longrightarrow>
       i < length (run_ops store (ops @ ops')) \<and>
       sr_status (run_ops store (ops @ ops') ! i) = sr_status (run_ops store ops ! i) \<and>
       sr_status (run_ops store (ops @ ops') ! i) \<noteq> processing)"
proof -
  have 1: "run_ops store (ops @ [Submit name]) = submit name (run_ops store ops)"
    by (simp add: run_ops_def)
  have 2: "length (submit name s) = Suc (length s)" for s
    by (simp add: submit_def)
  have 3: "sr_status (submit name s ! length s) = processing" for s
    by (simp add: submit_def nth_append)
  have 4: "i < length (run_ops store (ops @ ops')) \<and>
       sr_status (run_ops store (ops @ ops') ! i) = sr_status (run_ops store ops ! i) \<and>
       sr_status (run_ops store (ops @ ops') ! i) \<noteq> processing"
    if "i < length (run_ops store ops) \<and> sr_status (run_ops store ops ! i) \<noteq> processing"
    for i ops'
    using run_ops_terminal [of i "run_ops store ops" ops'] that
    by (simp add: run_ops_append)
  from 1 2 3 4 show ?thesis by simp
qed

theorem role_status_is_monotonic_witness:
  "sr_status (run_ops [] [Submit ''Engineer'', AllCellsAttempted 0] ! 0) = completed \<and>
   sr_status (run_ops [] ([Submit ''Engineer'', AllCellsAttempted 0] @
                [Submit ''Engineer'', ParserError 0 ''empty levels'', ExtractorError 1 ''bad pdf'']) ! 0)
     = completed \<and>
   sr_status (run_ops [] ([Submit ''Engineer'', AllCellsAttempted 0] @ [Submit ''Engineer'']) ! 1)
     = processing"
proof -
  let ?ops = "[Submit ''Engineer'', AllCellsAttempted 0]"
  let ?more = "[Submit ''Engineer'', ParserError 0 ''empty levels'', ExtractorError 1 ''bad pdf'']"
  have s: "run_ops [] ?ops =
      [\<lparr>sr_name = ''Engineer'', sr_status = completed, sr_message = None, sr_active = True\<rparr>]"
    by (simp add: run_ops_def submit_def write_status_def transition_def)
  have a: "0 < length (run_ops [] ?ops) \<and> sr_status (run_ops [] ?ops ! 0) \<noteq> processing"
    by (simp add: s)
  note t = role_status_is_monotonic [of "[]" ?ops "''Engineer''"]
  from t a have "sr_status (run_ops [] (?ops @ ?more) ! 0) = sr_status (run_ops [] ?ops ! 0)"
    by blast
  then have 1: "sr_status (run_ops [] (?ops @ ?more) ! 0) = completed"
    by (simp add: s)
  from t have "sr_status (run_ops [] (?ops @ [Submit ''Engineer'']) ! length (run_ops [] ?ops))
      = processing"
    by blast
  then have 2: "sr_status (run_ops [] (?ops @ [Submit ''Engineer'']) ! 1) = processing"
    by (simp add: s)
  have 0: "sr_status (run_ops [] ?ops ! 0) = completed"
    by (simp add: s)
  from 0 1 2 show ?thesis by blast
qed

end
